theory Spec2Isabelle
  imports Complex_Main "HOL-Library.Sublist" "HOL-Library.Log_Nat"
begin

section \<open>Python primitives used by app.py\<close>

text \<open>
  A Python \<open>str\<close> is modelled as a \<open>string\<close> whose characters are the code points
  U+0000 to U+00FF (Latin-1): every literal of the core of app.py lies in that range
  (\<open>CHR 0xE9\<close> is e-acute, \<open>CHR 0xE0\<close> a-grave, \<open>CHR 0xE7\<close> c-cedilla).
  A Python \<open>int\<close> is an \<open>int\<close>. A Python \<open>float\<close> is an IEEE 754 double
  (\<open>pyfloat\<close> below), and every operation on floats rounds as the double operation does.
\<close>

definition lower_char :: "char \<Rightarrow> char" where
  \<comment> \<open>\<open>str.lower\<close> on one Latin-1 code point: A-Z and U+00C0..U+00DE without U+00D7.\<close>
  "lower_char c = (let n = (of_char c :: nat) in
     if (65 \<le> n \<and> n \<le> 90) \<or> (192 \<le> n \<and> n \<le> 222 \<and> n \<noteq> 215)
     then char_of (n + 32) else c)"

definition lower :: "string \<Rightarrow> string" where
  "lower s = map lower_char s"

fun str_in :: "'a list \<Rightarrow> 'a list \<Rightarrow> bool" where
  \<comment> \<open>\<open>sub in text\<close>\<close>
  "str_in sub [] = (sub = [])"
| "str_in sub (c # cs) = (prefix sub (c # cs) \<or> str_in sub cs)"

fun count_from :: "'a list \<Rightarrow> 'a list \<Rightarrow> nat" where
  \<comment> \<open>the left-to-right scan of \<open>str.count\<close>: after a match the scan resumes behind it\<close>
  "count_from sub [] = 0"
| "count_from sub (c # cs) =
     (if sub \<noteq> [] \<and> prefix sub (c # cs)
      then Suc (count_from sub (drop (length sub - 1) cs))
      else count_from sub cs)"

definition str_count :: "'a list \<Rightarrow> 'a list \<Rightarrow> nat" where
  \<comment> \<open>\<open>text.count(sub)\<close>; the empty string is found between all characters\<close>
  "str_count text sub = (if sub = [] then length text + 1 else count_from sub text)"

definition is_space :: "char \<Rightarrow> bool" where
  \<comment> \<open>the Latin-1 code points that \<open>\s\<close> and \<open>str.strip\<close> treat as whitespace\<close>
  "is_space c = ((of_char c :: nat) \<in> {9, 10, 11, 12, 13, 28, 29, 30, 31, 32, 133, 160})"

definition strip :: "string \<Rightarrow> string" where
  "strip s = rev (dropWhile is_space (rev (dropWhile is_space s)))"

function collapse_ws :: "string \<Rightarrow> string" where
  \<comment> \<open>\<open>re.sub(r"\s+", " ", text)\<close>\<close>
  "collapse_ws [] = []"
| "collapse_ws (c # cs) =
     (if is_space c then CHR '' '' # collapse_ws (dropWhile is_space cs)
      else c # collapse_ws cs)"
  by pat_completeness auto
termination
  by (relation "measure length") (auto simp: less_Suc_eq_le length_dropWhile_le)

fun re_font_family :: "string \<Rightarrow> string option" where
  \<comment> \<open>group 1 of \<open>re.search(r"font-family\s*:\s*([^;]+)", style)\<close>, \<open>None\<close> without a match\<close>
  "re_font_family [] = None"
| "re_font_family (c # cs) =
     (if prefix ''font-family'' (c # cs) then
        (case dropWhile is_space (drop 11 (c # cs)) of
           [] \<Rightarrow> re_font_family cs
         | d # after \<Rightarrow>
             if d = CHR '':'' then
               (let r = takeWhile (\<lambda>x. x \<noteq> CHR '';'') after;
                    w = takeWhile is_space r
                in if r = [] then re_font_family cs
                   else if length w < length r then Some (drop (length w) r)
                   else Some [last r])
             else re_font_family cs)
      else re_font_family cs)"

definition utf8_len :: "string \<Rightarrow> nat" where
  \<comment> \<open>\<open>len(html.encode("utf-8"))\<close>: one byte below U+0080, two up to U+00FF\<close>
  "utf8_len s = sum_list (map (\<lambda>c. if (of_char c :: nat) < 128 then 1 else 2) s)"

subsection \<open>Floats\<close>

text \<open>
  A Python \<open>float\<close> is an IEEE 754 binary64 number. \<open>Finite x\<close> is the double of value
  \<open>x\<close>; the two zeros are not told apart (they are equal in Python) and \<open>NaN\<close> stands for
  every NaN. \<open>fl\<close> rounds a rational to the nearest double, ties to the even significand,
  with gradual underflow below \<open>2^-1022\<close> and overflow to an infinity; each arithmetic
  operation is the exact operation followed by \<open>fl\<close>.
\<close>

datatype pyfloat = Finite rat | PosInf | NegInf | NaN

definition round_half_even :: "rat \<Rightarrow> int" where
  "round_half_even x = (let f = \<lfloor>x\<rfloor>; d = x - of_int f in
     if d < 1 / 2 then f else if 1 / 2 < d then f + 1
     else if even f then f else f + 1)"

definition pow2 :: "int \<Rightarrow> rat" where
  "pow2 k = (if 0 \<le> k then 2 ^ nat k else 1 / 2 ^ nat (- k))"

definition float_exp :: "rat \<Rightarrow> int" where
  \<comment> \<open>for \<open>0 < a\<close>, the \<open>e\<close> with \<open>2^e \<le> a < 2^(e+1)\<close>\<close>
  "float_exp a = (let (p, q) = quotient_of a; d = bitlen p - bitlen q
                  in if pow2 d \<le> a then d else d - 1)"

definition fl :: "rat \<Rightarrow> pyfloat" where
  "fl x = (if x = 0 then Finite 0
           else let a = \<bar>x\<bar>;
                    e = max (float_exp a) (- 1022);
                    m = round_half_even (a / pow2 (e - 52))
                in if 1023 < e \<or> (e = 1023 \<and> 2 ^ 53 \<le> m)
                   then (if 0 < x then PosInf else NegInf)
                   else Finite ((if 0 < x then 1 else - 1) * of_int m * pow2 (e - 52)))"

fun fmul :: "pyfloat \<Rightarrow> pyfloat \<Rightarrow> pyfloat" where
  \<comment> \<open>\<open>x * y\<close> on floats\<close>
  "fmul (Finite a) (Finite b) = fl (a * b)"
| "fmul (Finite a) PosInf = (if a = 0 then NaN else if 0 < a then PosInf else NegInf)"
| "fmul (Finite a) NegInf = (if a = 0 then NaN else if 0 < a then NegInf else PosInf)"
| "fmul PosInf (Finite b) = (if b = 0 then NaN else if 0 < b then PosInf else NegInf)"
| "fmul NegInf (Finite b) = (if b = 0 then NaN else if 0 < b then NegInf else PosInf)"
| "fmul PosInf PosInf = PosInf"
| "fmul PosInf NegInf = NegInf"
| "fmul NegInf PosInf = NegInf"
| "fmul NegInf NegInf = PosInf"
| "fmul NaN y = NaN"
| "fmul x NaN = NaN"

fun fadd :: "pyfloat \<Rightarrow> pyfloat \<Rightarrow> pyfloat" where
  \<comment> \<open>\<open>x + y\<close> on floats\<close>
  "fadd (Finite a) (Finite b) = fl (a + b)"
| "fadd (Finite a) PosInf = PosInf"
| "fadd (Finite a) NegInf = NegInf"
| "fadd PosInf (Finite b) = PosInf"
| "fadd NegInf (Finite b) = NegInf"
| "fadd PosInf PosInf = PosInf"
| "fadd PosInf NegInf = NaN"
| "fadd NegInf PosInf = NaN"
| "fadd NegInf NegInf = NegInf"
| "fadd NaN y = NaN"
| "fadd x NaN = NaN"

fun fdiv :: "pyfloat \<Rightarrow> rat \<Rightarrow> pyfloat" where
  \<comment> \<open>\<open>x / c\<close> for a float \<open>x\<close> and a positive number \<open>c\<close> that is a double: app.py divides
      floats by 1048576, by 1000 and by a positive page count only\<close>
  "fdiv (Finite a) c = fl (a / c)"
| "fdiv PosInf c = PosInf"
| "fdiv NegInf c = NegInf"
| "fdiv NaN c = NaN"

datatype error = ValueError | OverflowError

definition float_of_int :: "int \<Rightarrow> error + pyfloat" where
  \<comment> \<open>the conversion of an \<open>int\<close> operand of a float operation: correctly rounded, and
      \<open>OverflowError\<close> when the int is too large for a double\<close>
  "float_of_int n = (case fl (of_int n) of Finite x \<Rightarrow> Inr (Finite x) | _ \<Rightarrow> Inl OverflowError)"

fun py_round :: "pyfloat \<Rightarrow> nat \<Rightarrow> pyfloat" where
  \<comment> \<open>\<open>round(x, ndigits)\<close>: the exact value of the double is rounded to \<open>ndigits\<close> decimals,
      ties to even, and the decimal result is converted back to a double\<close>
  "py_round (Finite x) ndigits = fl (of_int (round_half_even (x * 10 ^ ndigits)) / 10 ^ ndigits)"
| "py_round PosInf ndigits = PosInf"
| "py_round NegInf ndigits = NegInf"
| "py_round NaN ndigits = NaN"

definition py_int :: "rat \<Rightarrow> int" where
  \<comment> \<open>\<open>int(x)\<close> truncates towards zero\<close>
  "py_int x = (if 0 \<le> x then \<lfloor>x\<rfloor> else \<lceil>x\<rceil>)"

fun show_nat :: "nat \<Rightarrow> string" where
  "show_nat n = (if n < 10 then [char_of (48 + n)]
                 else show_nat (n div 10) @ [char_of (48 + n mod 10)])"

fun format_1f :: "pyfloat \<Rightarrow> string" where
  \<comment> \<open>\<open>f"{x:.1f}"\<close>: the exact value of the double rounded to one decimal, ties to even\<close>
  "format_1f (Finite x) =
     (let t = nat (round_half_even (\<bar>x\<bar> * 10)) in
      (if x < 0 then ''-'' else '''') @ show_nat (t div 10) @ ''.'' @ show_nat (t mod 10))"
| "format_1f PosInf = ''inf''"
| "format_1f NegInf = ''-inf''"
| "format_1f NaN = ''nan''"

fun py_max :: "int list \<Rightarrow> error + int" where
  \<comment> \<open>\<open>max(...)\<close> raises \<open>ValueError\<close> on an empty sequence\<close>
  "py_max [] = Inl ValueError"
| "py_max (x # xs) = Inr (fold max xs x)"


section \<open>Global configuration\<close>

definition RSE_KEYWORDS :: "string list" where
  "RSE_KEYWORDS =
    [''rse'', ''responsabilit'' @ [CHR 0xE9] @ '' soci'' @ [CHR 0xE9] @ ''tale'',
     ''responsabilit'' @ [CHR 0xE9] @ '' sociale'',
     ''responsabilite soci'' @ [CHR 0xE9] @ ''tale'', ''responsabilite sociale'',
     ''d'' @ [CHR 0xE9] @ ''veloppement durable'', ''developpement durable'', ''durable'',
     ''environnement'', ''environnemental'', ''impact environnemental'',
     ''transition '' @ [CHR 0xE9] @ ''cologique'', ''transition ecologique'',
     ''transition '' @ [CHR 0xE9] @ ''nerg'' @ [CHR 0xE9] @ ''tique'',
     ''transition energetique'',
     ''esg'', ''csr'', ''sustainability'', ''sustainable'', ''sustainable development'']"

definition CARBON_KEYWORDS :: "string list" where
  "CARBON_KEYWORDS =
    [''bilan carbone'', ''empreinte carbone'', [CHR 0xE9] @ ''missions de co2'',
     ''emissions de co2'', [CHR 0xE9] @ ''missions carbone'', ''emissions carbone'',
     ''gaz '' @ [CHR 0xE0] @ '' effet de serre'', ''gaz a effet de serre'',
     ''co2'', ''r'' @ [CHR 0xE9] @ ''duction des '' @ [CHR 0xE9] @ ''missions'',
     ''reduction des emissions'',
     ''neutralit'' @ [CHR 0xE9] @ '' carbone'', ''neutralite carbone'',
     ''d'' @ [CHR 0xE9] @ ''carbonation'', ''decarbonation'',
     ''scope 1'', ''scope 2'', ''scope 3'']"

definition GREEN_IT_KEYWORDS :: "string list" where
  "GREEN_IT_KEYWORDS =
    [''num'' @ [CHR 0xE9] @ ''rique responsable'', ''numerique responsable'',
     [CHR 0xE9] @ ''co-conception'', ''eco-conception'', ''eco conception'',
     ''site '' @ [CHR 0xE9] @ ''co-con'' @ [CHR 0xE7] @ ''u'', ''site eco-concu'',
     ''green it'',
     ''h'' @ [CHR 0xE9] @ ''bergement vert'', ''hebergement vert'',
     ''h'' @ [CHR 0xE9] @ ''bergement '' @ [CHR 0xE9] @ ''cologique'',
     ''hebergement ecologique'',
     ''data center vert'',
     ''sobri'' @ [CHR 0xE9] @ ''t'' @ [CHR 0xE9] @ '' num'' @ [CHR 0xE9] @ ''rique'',
     ''sobriete numerique'']"

definition MAX_PAGES :: int where
  "MAX_PAGES = 20"

definition DEFAULT_WEIGHT_MULTIPLIER :: pyfloat where
  "DEFAULT_WEIGHT_MULTIPLIER = Finite 3"

definition DEFAULT_ENERGY_PER_GB_KWH :: pyfloat where
  "DEFAULT_ENERGY_PER_GB_KWH = Finite (1 / 2)"

definition DEFAULT_CARBON_INTENSITY_G_PER_KWH :: pyfloat where
  "DEFAULT_CARBON_INTENSITY_G_PER_KWH = Finite 300"


section \<open>The libraries app.py calls\<close>

text \<open>
  requests, urllib.parse, tldextract and BeautifulSoup are not part of the repository.
  Their results are taken as parameters: \<open>http_get\<close> is \<open>requests.get\<close> (\<open>None\<close> when it
  raises), \<open>urlparse\<close>, \<open>urljoin\<close> and \<open>tld_extract\<close> are the functions of those names,
  and the \<open>soup_\<close> fields are the queries app.py makes on the parsed HTML.
  The built-in \<open>sum\<close> on floats is a parameter too: the interpreter adds from left to
  right up to CPython 3.11 (\<open>plain_sum\<close> below) and compensates the rounding errors of
  the additions from CPython 3.12 on, so the last bit of a sum depends on the interpreter.
\<close>

record response =
  status_code :: int
  content_type :: "string option"  \<comment> \<open>the Content-Type header, if present\<close>
  resp_text :: string

record parsed_url =
  url_scheme :: string
  netloc :: string

record extract_result =
  ext_subdomain :: string
  ext_domain :: string
  ext_suffix :: string

record libs =
  http_get :: "string \<Rightarrow> response option"
  urlparse :: "string \<Rightarrow> parsed_url"
  urljoin :: "string \<Rightarrow> string \<Rightarrow> string"
  tld_extract :: "string \<Rightarrow> extract_result"
  soup_title :: "string \<Rightarrow> string option"
    \<comment> \<open>\<open>soup.title.get_text(strip=True)\<close>, \<open>None\<close> without a title element\<close>
  soup_count :: "string \<Rightarrow> string \<Rightarrow> nat"
    \<comment> \<open>\<open>len(soup.find_all(tag))\<close>\<close>
  soup_link_rels :: "string \<Rightarrow> string list list"
    \<comment> \<open>the \<open>rel\<close> values of each \<open>link\<close> element that has a \<open>rel\<close>\<close>
  soup_styles :: "string \<Rightarrow> string list"
    \<comment> \<open>the \<open>style\<close> attribute of each element that has one\<close>
  soup_link_hrefs :: "string \<Rightarrow> string list"
    \<comment> \<open>the \<open>href\<close> of each \<open>link\<close> element that has one\<close>
  soup_anchors :: "string \<Rightarrow> (string \<times> string) list"
    \<comment> \<open>\<open>href\<close> and \<open>get_text()\<close> of each \<open>a\<close> element that has an \<open>href\<close>, in document order\<close>
  soup_text :: "string \<Rightarrow> string"
    \<comment> \<open>\<open>get_text(separator=" ")\<close> once script, style and noscript are removed\<close>
  float_sum :: "pyfloat list \<Rightarrow> pyfloat"
    \<comment> \<open>the built-in \<open>sum\<close> on a list of floats\<close>


section \<open>Technical functions\<close>

definition normalize_base_url :: "libs \<Rightarrow> string \<Rightarrow> string" where
  "normalize_base_url L url =
     (let url = (if \<not> prefix ''http'' url then ''https://'' @ url else url);
          parsed = urlparse L url
      in url_scheme parsed @ ''://'' @ netloc parsed)"

definition is_internal_link :: "libs \<Rightarrow> string \<Rightarrow> string \<Rightarrow> bool" where
  "is_internal_link L link base_domain =
     (if link = [] then False
      else let parsed = urlparse L link in
        if netloc parsed = [] then True
        else let ext = tld_extract L (netloc parsed);
                 domain = ext_domain ext @ ''.'' @ ext_suffix ext
             in domain = base_domain)"

definition fetch_page :: "libs \<Rightarrow> string \<Rightarrow> string option" where
  "fetch_page L url =
     (case http_get L url of
        None \<Rightarrow> None
      | Some resp \<Rightarrow>
          if status_code resp = 200
             \<and> str_in ''text/html'' (case content_type resp of None \<Rightarrow> '''' | Some ct \<Rightarrow> ct)
          then Some (resp_text resp) else None)"

definition extract_text :: "libs \<Rightarrow> string \<Rightarrow> string" where
  "extract_text L html = strip (collapse_ws (soup_text L html))"

definition LINK_STEMS :: "string list" where
  "LINK_STEMS =
    [''rse'', ''responsabilite'', ''responsabilit'' @ [CHR 0xE9],
     ''developpement-durable'', ''developpement durable'',
     ''durable'', ''environnement'', ''carbone'', ''co2'',
     ''csr'', ''sustainab'']"

definition link_score :: "string \<Rightarrow> string \<Rightarrow> int" where
  "link_score url_lower text =
     fold (\<lambda>kw score. if str_in kw url_lower \<or> str_in kw text then score + 5 else score)
       LINK_STEMS 0"

fun collect_links :: "libs \<Rightarrow> string \<Rightarrow> string \<Rightarrow> (string \<times> string) list \<Rightarrow> (string \<times> int) list"
where
  "collect_links L base_url base_domain [] = []"
| "collect_links L base_url base_domain ((href, atext) # rest) =
     (let full_url = urljoin L base_url href in
      if \<not> is_internal_link L full_url base_domain
      then collect_links L base_url base_domain rest
      else (full_url, link_score (lower full_url) (lower atext))
             # collect_links L base_url base_domain rest)"

fun rank_links :: "int \<Rightarrow> (string \<times> int) list \<Rightarrow> string set \<Rightarrow> string list \<Rightarrow> string list"
where
  "rank_links max_links [] seen ranked_links = ranked_links"
| "rank_links max_links ((url, sc) # rest) seen ranked_links =
     (let (seen', ranked') =
            (if url \<notin> seen then (insert url seen, ranked_links @ [url])
             else (seen, ranked_links))
      in if int (length ranked') \<ge> max_links then ranked'
         else rank_links max_links rest seen' ranked')"

definition find_candidate_links :: "libs \<Rightarrow> string \<Rightarrow> string \<Rightarrow> int \<Rightarrow> string list" where
  "find_candidate_links L base_url html max_links =
     (let ext = tld_extract L base_url;
          base_domain = ext_domain ext @ ''.'' @ ext_suffix ext;
          links = collect_links L base_url base_domain (soup_anchors L html);
          links = sort_key (\<lambda>x. - snd x) links
      in rank_links max_links links {} [])"

definition count_keywords :: "string \<Rightarrow> string list \<Rightarrow> int" where
  "count_keywords text keywords =
     (let text_lower = lower text in
      fold (\<lambda>kw count.
              let kw_lower = lower kw in
              if str_in kw_lower text_lower
              then count + int (str_count text_lower kw_lower) else count)
        keywords 0)"

definition score_from_hits :: "int \<Rightarrow> int \<Rightarrow> int" where
  "score_from_hits hits max_hits =
     (if hits \<le> 0 then 0
      else if hits \<ge> max_hits then 100
      else py_int (of_int hits / of_int max_hits * 100))"

record text_scores =
  rse_hits :: int
  carbon_hits :: int
  green_it_hits :: int
  rse_score :: int
  carbon_score :: int
  green_it_score :: int

definition analyze_text :: "string \<Rightarrow> text_scores" where
  "analyze_text text =
     (let rse_hits = count_keywords text RSE_KEYWORDS;
          carbon_hits = count_keywords text CARBON_KEYWORDS;
          green_it_hits = count_keywords text GREEN_IT_KEYWORDS
      in \<lparr>rse_hits = rse_hits,
          carbon_hits = carbon_hits,
          green_it_hits = green_it_hits,
          rse_score = score_from_hits rse_hits 20,
          carbon_score = score_from_hits carbon_hits 20,
          green_it_score = score_from_hits green_it_hits 20\<rparr>)"

record page_info = text_scores +
  url :: string
  title :: string
  html_kb :: pyfloat
  num_images :: int
  num_scripts :: int
  num_stylesheets :: int
  headings_h1 :: int
  headings_h2 :: int
  headings_h3 :: int
  num_inline_fonts :: int
  font_resources :: "string set"  \<comment> \<open>\<open>list(set(...))\<close>: the order is not fixed\<close>
  page_text :: string             \<comment> \<open>the key \<open>"text"\<close>\<close>

definition analyze_page :: "libs \<Rightarrow> string \<Rightarrow> string \<Rightarrow> page_info" where
  "analyze_page L html page_url =
     (let title = (case soup_title L html of Some t \<Rightarrow> t | None \<Rightarrow> '''');
          headings_h1 = int (soup_count L html ''h1'');
          headings_h2 = int (soup_count L html ''h2'');
          headings_h3 = int (soup_count L html ''h3'');
          stylesheets = filter (\<lambda>rels. ''stylesheet'' \<in> set (map lower rels))
                          (soup_link_rels L html);
          num_images = int (soup_count L html ''img'');
          num_scripts = int (soup_count L html ''script'');
          num_stylesheets = int (length stylesheets);
          html_bytes = utf8_len html;
          html_kb = py_round (fl (of_nat html_bytes / 1024)) 1;
          font_families =
            fold (\<lambda>style fams.
                    case re_font_family (lower style) of
                      Some g \<Rightarrow> insert (strip g) fams
                    | None \<Rightarrow> fams)
              (soup_styles L html) {};
          font_resources =
            filter (\<lambda>h. str_in ''fonts.googleapis.com'' (lower h) \<or> str_in ''font'' (lower h))
              (soup_link_hrefs L html);
          num_inline_fonts = int (card font_families);
          text = extract_text L html;
          scores = analyze_text text
      in \<lparr>rse_hits = rse_hits scores,
          carbon_hits = carbon_hits scores,
          green_it_hits = green_it_hits scores,
          rse_score = rse_score scores,
          carbon_score = carbon_score scores,
          green_it_score = green_it_score scores,
          url = page_url,
          title = title,
          html_kb = html_kb,
          num_images = num_images,
          num_scripts = num_scripts,
          num_stylesheets = num_stylesheets,
          headings_h1 = headings_h1,
          headings_h2 = headings_h2,
          headings_h3 = headings_h3,
          num_inline_fonts = num_inline_fonts,
          font_resources = set font_resources,
          page_text = text\<rparr>)"


section \<open>The crawl and the site report\<close>

record failed_report =
  err_domain :: string                 \<comment> \<open>the key \<open>"domain"\<close>\<close>
  err_url :: string                    \<comment> \<open>the key \<open>"url"\<close>\<close>
  err_error :: string                  \<comment> \<open>the key \<open>"error"\<close>\<close>
  err_pages_details :: "page_info list"  \<comment> \<open>the key \<open>"pages_details"\<close>\<close>

record site_report =
  domain :: string
  site_url :: string                   \<comment> \<open>the key \<open>"url"\<close>\<close>
  pages_scanned :: int
  has_rse_content :: bool
  has_carbon_mentions :: bool
  has_bilan_carbone_explicit :: bool
  has_green_it :: bool
  global_rse_score :: int
  global_carbon_score :: int
  global_green_it_score :: int
  total_rse_hits :: int
  total_carbon_hits :: int
  total_green_it_hits :: int
  total_html_kb :: pyfloat
  avg_html_kb :: pyfloat
  total_images :: int
  total_scripts :: int
  total_stylesheets :: int
  total_h1 :: int
  total_h2 :: int
  total_h3 :: int
  num_font_resources :: int
  summary :: string
  pages_details :: "page_info list"

text \<open>The two shapes of the dictionary \<open>analyze_website\<close> returns.\<close>

datatype site_result = Failed failed_report | Report site_report

fun crawl_loop :: "libs \<Rightarrow> int \<Rightarrow> string list \<Rightarrow> string set \<Rightarrow> page_info list \<Rightarrow> page_info list"
where
  \<comment> \<open>the loop over \<open>candidate_links\<close>, with its variables \<open>visited\<close> and \<open>pages_data\<close>\<close>
  "crawl_loop L max_pages [] visited pages_data = pages_data"
| "crawl_loop L max_pages (link # rest) visited pages_data =
     (if int (length pages_data) \<ge> max_pages then pages_data
      else if link \<in> visited then crawl_loop L max_pages rest visited pages_data
      else
        (case fetch_page L link of
           None \<Rightarrow> crawl_loop L max_pages rest (insert link visited) pages_data
         | Some html \<Rightarrow>
             if html = [] then crawl_loop L max_pages rest (insert link visited) pages_data
             else crawl_loop L max_pages rest (insert link visited)
                    (pages_data @ [analyze_page L html link])))"

fun str_join :: "string \<Rightarrow> string list \<Rightarrow> string" where
  \<comment> \<open>\<open>sep.join(parts)\<close>\<close>
  "str_join sep [] = ''''"
| "str_join sep [p] = p"
| "str_join sep (p # q # ps) = p @ sep @ str_join sep (q # ps)"

definition analyze_website :: "libs \<Rightarrow> string \<Rightarrow> int \<Rightarrow> error + site_result" where
  "analyze_website L seed max_pages =
     (let base_url = normalize_base_url L seed;
          html_home = fetch_page L base_url
      in
      if html_home = None \<or> html_home = Some [] then
        Inr (Failed \<lparr>err_domain = netloc (urlparse L base_url),
                     err_url = base_url,
                     err_error = ''Impossible de r'' @ [CHR 0xE9] @ ''cup'' @ [CHR 0xE9]
                                   @ ''rer la page d'accueil'',
                     err_pages_details = []\<rparr>)
      else \<comment> \<open>here \<open>html_home\<close> is \<open>Some\<close> of a non-empty string\<close>
      let ext = tld_extract L base_url;
          domain = ext_domain ext @ ''.'' @ ext_suffix ext;
          home_info = analyze_page L (the html_home) base_url;
          candidate_links = find_candidate_links L base_url (the html_home) 50;
          pages_data = crawl_loop L max_pages candidate_links {base_url} [home_info];
          total_rse_hits = sum_list (map rse_hits pages_data);
          total_carbon_hits = sum_list (map carbon_hits pages_data);
          total_green_it_hits = sum_list (map green_it_hits pages_data);
          has_bilan_carbone_explicit =
            list_ex (\<lambda>p. str_in ''bilan carbone'' (lower (page_text p))) pages_data;
          has_rse_content = (total_rse_hits > 0);
          has_carbon_mentions = (total_carbon_hits > 0);
          has_green_it = (total_green_it_hits > 0)
      in
      case py_max (map rse_score pages_data) of Inl e \<Rightarrow> Inl e | Inr g_rse_score \<Rightarrow>
      case py_max (map carbon_score pages_data) of Inl e \<Rightarrow> Inl e | Inr g_carbon_score \<Rightarrow>
      case py_max (map green_it_score pages_data) of Inl e \<Rightarrow> Inl e | Inr g_green_it_score \<Rightarrow>
      let pages_scanned = int (length pages_data);
          total_html_kb = float_sum L (map html_kb pages_data);
          avg_html_kb = (if pages_scanned > 0
                         then py_round (fdiv total_html_kb (of_int pages_scanned)) 1
                         else Finite 0);
          total_images = sum_list (map num_images pages_data);
          total_scripts = sum_list (map num_scripts pages_data);
          total_stylesheets = sum_list (map num_stylesheets pages_data);
          total_h1 = sum_list (map headings_h1 pages_data);
          total_h2 = sum_list (map headings_h2 pages_data);
          total_h3 = sum_list (map headings_h3 pages_data);
          all_font_resources = fold (\<lambda>p acc. acc \<union> font_resources p) pages_data {};
          num_font_resources = int (card all_font_resources);
          summary_parts =
            [if has_rse_content
             then ''L'entreprise communique sur la RSE / l'environnement.''
             else ''Aucun contenu RSE clair trouv'' @ [CHR 0xE9] @ '' sur les pages analys''
                    @ [CHR 0xE9] @ ''es.'',
             if has_carbon_mentions then
               (if has_bilan_carbone_explicit
                then ''Mention explicite d'un bilan carbone.''
                else ''Mention d'' @ [CHR 0x27, CHR 0xE9]
                       @ ''missions carbone / CO2, sans bilan carbone ''
                       @ ''clairement identifi'' @ [CHR 0xE9] @ ''.'')
             else ''Aucune mention significative de carbone / CO2 trouv'' @ [CHR 0xE9] @ ''e.'',
             if has_green_it
             then ''Des '' @ [CHR 0xE9] @ ''l'' @ [CHR 0xE9] @ ''ments de num'' @ [CHR 0xE9]
                    @ ''rique responsable / green IT sont mentionn'' @ [CHR 0xE9] @ ''s.''
             else ''Pas de mention de num'' @ [CHR 0xE9] @ ''rique responsable / site ''
                    @ [CHR 0xE9] @ ''co-con'' @ [CHR 0xE7] @ ''u d'' @ [CHR 0xE9] @ ''tect''
                    @ [CHR 0xE9] @ ''e.'',
             ''Crawl de '' @ show_nat (nat pages_scanned) @ '' pages pour ''
               @ format_1f total_html_kb @ '' Ko de HTML (moyenne ''
               @ format_1f avg_html_kb @ '' Ko/page).''];
          summary = str_join '' '' summary_parts
      in Inr (Report \<lparr>domain = domain,
                     site_url = base_url,
                     pages_scanned = pages_scanned,
                     has_rse_content = has_rse_content,
                     has_carbon_mentions = has_carbon_mentions,
                     has_bilan_carbone_explicit = has_bilan_carbone_explicit,
                     has_green_it = has_green_it,
                     global_rse_score = g_rse_score,
                     global_carbon_score = g_carbon_score,
                     global_green_it_score = g_green_it_score,
                     total_rse_hits = total_rse_hits,
                     total_carbon_hits = total_carbon_hits,
                     total_green_it_hits = total_green_it_hits,
                     total_html_kb = total_html_kb,
                     avg_html_kb = avg_html_kb,
                     total_images = total_images,
                     total_scripts = total_scripts,
                     total_stylesheets = total_stylesheets,
                     total_h1 = total_h1,
                     total_h2 = total_h2,
                     total_h3 = total_h3,
                     num_font_resources = num_font_resources,
                     summary = summary,
                     pages_details = pages_data\<rparr>))"


section \<open>The carbon estimate\<close>

record assumptions_info =
  monthly_page_views :: int
  weight_multiplier :: pyfloat
  energy_per_gb_kwh :: pyfloat
  carbon_intensity_g_per_kwh :: pyfloat

record carbon_estimate =
  avg_kb_per_page :: pyfloat
  gco2_per_page_view :: pyfloat
  monthly_kgco2 :: pyfloat
  yearly_kgco2 :: pyfloat
  assumptions :: assumptions_info

definition get_avg_html_kb :: "site_result \<Rightarrow> pyfloat option" where
  \<comment> \<open>\<open>site_result.get("avg_html_kb")\<close>: the failed report has no such key\<close>
  "get_avg_html_kb site_result =
     (case site_result of Failed f \<Rightarrow> None | Report r \<Rightarrow> Some (avg_html_kb r))"

definition estimate_site_carbon ::
  "site_result \<Rightarrow> int \<Rightarrow> pyfloat \<Rightarrow> pyfloat \<Rightarrow> pyfloat \<Rightarrow> error + carbon_estimate" where
  "estimate_site_carbon site_result views multiplier energy intensity =
     (case get_avg_html_kb site_result of
        None \<Rightarrow> Inl ValueError
      | Some avg_kb \<Rightarrow>
          let avg_kb_per_page = fmul avg_kb multiplier;
              gb_per_view = fdiv avg_kb_per_page (1024 * 1024);
              kwh_per_view = fmul gb_per_view energy;
              gco2_per_view = fmul kwh_per_view intensity
          in
          \<comment> \<open>\<open>gco2_per_view * monthly_page_views\<close> converts the int to a float first\<close>
          case float_of_int views of
            Inl e \<Rightarrow> Inl e
          | Inr views_float \<Rightarrow>
              let monthly_gco2 = fmul gco2_per_view views_float;
                  monthly_kgco2 = fdiv monthly_gco2 1000;
                  yearly_kgco2 = fmul monthly_kgco2 (Finite 12)
              in Inr \<lparr>avg_kb_per_page = py_round avg_kb_per_page 1,
                      gco2_per_page_view = py_round gco2_per_view 4,
                      monthly_kgco2 = py_round monthly_kgco2 2,
                      yearly_kgco2 = py_round yearly_kgco2 2,
                      assumptions = \<lparr>monthly_page_views = views,
                                     weight_multiplier = multiplier,
                                     energy_per_gb_kwh = energy,
                                     carbon_intensity_g_per_kwh = intensity\<rparr>\<rparr>)"


section \<open>The chain of the carbon estimator, as the specification words it\<close>

text \<open>
  The formulas of the specification, read in the arithmetic of Python floats. The monthly
  page views enter as the float the int converts to.
\<close>

definition spec_avgKbPerPage :: "pyfloat \<Rightarrow> pyfloat \<Rightarrow> pyfloat" where
  "spec_avgKbPerPage avgHtmlKb weightMultiplier = fmul avgHtmlKb weightMultiplier"

definition spec_gbPerView :: "pyfloat \<Rightarrow> pyfloat \<Rightarrow> pyfloat" where
  "spec_gbPerView avgHtmlKb weightMultiplier =
     fdiv (spec_avgKbPerPage avgHtmlKb weightMultiplier) (1024 * 1024)"

definition spec_kwhPerView :: "pyfloat \<Rightarrow> pyfloat \<Rightarrow> pyfloat \<Rightarrow> pyfloat" where
  "spec_kwhPerView avgHtmlKb weightMultiplier energyPerGbKwh =
     fmul (spec_gbPerView avgHtmlKb weightMultiplier) energyPerGbKwh"

definition spec_gco2PerView :: "pyfloat \<Rightarrow> pyfloat \<Rightarrow> pyfloat \<Rightarrow> pyfloat \<Rightarrow> pyfloat" where
  "spec_gco2PerView avgHtmlKb weightMultiplier energyPerGbKwh carbonIntensityGPerKwh =
     fmul (spec_kwhPerView avgHtmlKb weightMultiplier energyPerGbKwh) carbonIntensityGPerKwh"

definition spec_monthlyKgCo2 ::
  "pyfloat \<Rightarrow> pyfloat \<Rightarrow> pyfloat \<Rightarrow> pyfloat \<Rightarrow> pyfloat \<Rightarrow> pyfloat" where
  "spec_monthlyKgCo2 avgHtmlKb monthlyPageViews weightMultiplier energyPerGbKwh
       carbonIntensityGPerKwh =
     fdiv (fmul (spec_gco2PerView avgHtmlKb weightMultiplier energyPerGbKwh
                   carbonIntensityGPerKwh) monthlyPageViews) 1000"

definition spec_yearlyKgCo2 ::
  "pyfloat \<Rightarrow> pyfloat \<Rightarrow> pyfloat \<Rightarrow> pyfloat \<Rightarrow> pyfloat \<Rightarrow> pyfloat" where
  "spec_yearlyKgCo2 avgHtmlKb monthlyPageViews weightMultiplier energyPerGbKwh
       carbonIntensityGPerKwh =
     fmul (spec_monthlyKgCo2 avgHtmlKb monthlyPageViews weightMultiplier energyPerGbKwh
             carbonIntensityGPerKwh) (Finite 12)"

text \<open>
  Every number the returned dictionary holds: its four figures and its four assumptions, of
  which the page views are an \<open>int\<close>.
\<close>

datatype pynum = PyInt int | PyFloat pyfloat

definition exposed_values :: "carbon_estimate \<Rightarrow> pynum list" where
  "exposed_values est =
     [PyFloat (avg_kb_per_page est), PyFloat (gco2_per_page_view est),
      PyFloat (monthly_kgco2 est), PyFloat (yearly_kgco2 est),
      PyInt (monthly_page_views (assumptions est)),
      PyFloat (weight_multiplier (assumptions est)),
      PyFloat (energy_per_gb_kwh (assumptions est)),
      PyFloat (carbon_intensity_g_per_kwh (assumptions est))]"


section \<open>Inputs for the examples\<close>

text \<open>A site report with a given average HTML size; the estimator reads no other key.\<close>

definition report_with_avg :: "pyfloat \<Rightarrow> site_result" where
  "report_with_avg a = Report \<lparr>domain = ''example.com'', site_url = ''https://example.com'',
     pages_scanned = 1, has_rse_content = False, has_carbon_mentions = False,
     has_bilan_carbone_explicit = False, has_green_it = False,
     global_rse_score = 0, global_carbon_score = 0, global_green_it_score = 0,
     total_rse_hits = 0, total_carbon_hits = 0, total_green_it_hits = 0,
     total_html_kb = a, avg_html_kb = a, total_images = 0, total_scripts = 0,
     total_stylesheets = 0, total_h1 = 0, total_h2 = 0, total_h3 = 0,
     num_font_resources = 0, summary = '''', pages_details = []\<rparr>"

text \<open>A text that holds the keyword "rse" \<open>n\<close> times and no other keyword.\<close>

definition rse_times :: "nat \<Rightarrow> string" where
  "rse_times n = concat (replicate n ''rse '')"

text \<open>
  A small site standing in for the network and the libraries: a home page with seven
  anchors (one to the home page itself, one answered 404, one to another domain, one answered
  with an empty body, one twice), and two further hosts, one that cannot be reached and one
  whose home page has an empty body. The functions of the example answer for these pages
  and URLs what requests, urllib.parse, tldextract and BeautifulSoup answer for them.
\<close>

definition home_html :: string where
  "home_html =
     ''<title>Home</title><h1>Example</h1><a href=https://example.com>Home</a>''
     @ ''<a href=/missing>Gone</a><a href=/about>About</a>''
     @ ''<a href=https://other.org/x>Partner</a><a href=/empty>Empty</a>''
     @ ''<a href=/bilan-carbone>Bilan</a><a href=/about>Us</a>''"

definition about_html :: string where
  "about_html = ''<title>About</title>About us''"

definition carbon_html :: string where
  "carbon_html = ''<title>Bilan</title>Bilan Carbone 2024''"

definition html_response :: "string \<Rightarrow> response" where
  "html_response body =
     \<lparr>status_code = 200, content_type = Some ''text/html; charset=utf-8'', resp_text = body\<rparr>"

definition test_http_get :: "string \<Rightarrow> response option" where
  "test_http_get u =
     (if u = ''https://example.com'' then Some (html_response home_html)
      else if u = ''https://example.com/about'' then Some (html_response about_html)
      else if u = ''https://example.com/bilan-carbone'' then Some (html_response carbon_html)
      else if u = ''https://example.com/empty'' then Some (html_response '''')
      else if u = ''https://empty.example'' then Some (html_response '''')
      else if u = ''https://example.com/missing''
      then Some \<lparr>status_code = 404, content_type = Some ''text/html'', resp_text = ''Not found''\<rparr>
      else None)"

definition test_urlparse :: "string \<Rightarrow> parsed_url" where
  "test_urlparse u =
     (if prefix ''https://shop.example.com'' u
      then \<lparr>url_scheme = ''https'', netloc = ''shop.example.com''\<rparr>
      else if prefix ''https://example.com'' u
      then \<lparr>url_scheme = ''https'', netloc = ''example.com''\<rparr>
      else if prefix ''https://example.co.uk'' u
      then \<lparr>url_scheme = ''https'', netloc = ''example.co.uk''\<rparr>
      else if prefix ''https://other.org'' u
      then \<lparr>url_scheme = ''https'', netloc = ''other.org''\<rparr>
      else if prefix ''https://empty.example'' u
      then \<lparr>url_scheme = ''https'', netloc = ''empty.example''\<rparr>
      else if prefix ''https://down.example'' u
      then \<lparr>url_scheme = ''https'', netloc = ''down.example''\<rparr>
      else \<lparr>url_scheme = '''', netloc = ''''\<rparr>)"

definition test_urljoin :: "string \<Rightarrow> string \<Rightarrow> string" where
  "test_urljoin base href = (if prefix ''http'' href then href else base @ href)"

definition test_tld_extract :: "string \<Rightarrow> extract_result" where
  "test_tld_extract h =
     (if str_in ''shop.example.com'' h
      then \<lparr>ext_subdomain = ''shop'', ext_domain = ''example'', ext_suffix = ''com''\<rparr>
      else if str_in ''example.com'' h
      then \<lparr>ext_subdomain = '''', ext_domain = ''example'', ext_suffix = ''com''\<rparr>
      else if str_in ''example.co.uk'' h
      then \<lparr>ext_subdomain = '''', ext_domain = ''example'', ext_suffix = ''co.uk''\<rparr>
      else if str_in ''other.org'' h
      then \<lparr>ext_subdomain = '''', ext_domain = ''other'', ext_suffix = ''org''\<rparr>
      else \<lparr>ext_subdomain = '''', ext_domain = h, ext_suffix = ''''\<rparr>)"

definition test_anchors :: "string \<Rightarrow> (string \<times> string) list" where
  "test_anchors html =
     (if html = home_html
      then [(''https://example.com'', ''Home''), (''/missing'', ''Gone''),
            (''/about'', ''About''), (''https://other.org/x'', ''Partner''),
            (''/empty'', ''Empty''), (''/bilan-carbone'', ''Bilan''),
            (''/about'', ''Us'')]
      else [])"

definition test_soup_text :: "string \<Rightarrow> string" where
  "test_soup_text html =
     (if html = home_html then ''Home Example Home Gone About Partner Empty Bilan Us''
      else if html = about_html then ''About About us''
      else if html = carbon_html then ''Bilan Bilan Carbone 2024''
      else '''')"

definition test_soup_title :: "string \<Rightarrow> string option" where
  "test_soup_title html =
     (if html = home_html then Some ''Home''
      else if html = about_html then Some ''About''
      else if html = carbon_html then Some ''Bilan''
      else None)"

text \<open>The built-in sum on floats as CPython computes it up to version 3.11.\<close>

definition plain_sum :: "pyfloat list \<Rightarrow> pyfloat" where
  "plain_sum xs = fold (\<lambda>x acc. fadd acc x) xs (Finite 0)"

definition test_libs :: libs where
  "test_libs =
     \<lparr>http_get = test_http_get, urlparse = test_urlparse, urljoin = test_urljoin,
      tld_extract = test_tld_extract,
      soup_title = test_soup_title,
      soup_count = (\<lambda>html tag. if html = home_html \<and> tag = ''h1'' then 1 else 0),
      soup_link_rels = (\<lambda>html. []),
      soup_styles = (\<lambda>html. []),
      soup_link_hrefs = (\<lambda>html. []),
      soup_anchors = test_anchors,
      soup_text = test_soup_text,
      float_sum = plain_sum\<rparr>"


section \<open>Notions used by the properties of the crawl\<close>

text \<open>The report of a crawl whose home page could not be fetched.\<close>

definition failure_report :: "libs \<Rightarrow> string \<Rightarrow> failed_report" where
  "failure_report L seed =
     \<lparr>err_domain = netloc (urlparse L (normalize_base_url L seed)),
      err_url = normalize_base_url L seed,
      err_error = ''Impossible de r'' @ [CHR 0xE9] @ ''cup'' @ [CHR 0xE9]
                    @ ''rer la page d'accueil'',
      err_pages_details = []\<rparr>"

text \<open>The libraries with the fetch of one URL made to raise.\<close>

definition unavailable :: "libs \<Rightarrow> string \<Rightarrow> libs" where
  "unavailable L u = L\<lparr>http_get := (http_get L)(u := None)\<rparr>"

text \<open>The pages a successful crawl analyzes: the home page, then the loop over the candidates.\<close>

definition crawled_pages :: "libs \<Rightarrow> string \<Rightarrow> int \<Rightarrow> page_info list" where
  "crawled_pages L seed mp =
     (let base_url = normalize_base_url L seed;
          html = the (fetch_page L base_url)
      in crawl_loop L mp (find_candidate_links L base_url html 50) {base_url}
           [analyze_page L html base_url])"

text \<open>Every score of a page lies between 0 and 100.\<close>

definition scores_in_range :: "page_info \<Rightarrow> bool" where
  "scores_in_range p =
     (0 \<le> rse_score p \<and> rse_score p \<le> 100 \<and> 0 \<le> carbon_score p \<and> carbon_score p \<le> 100
      \<and> 0 \<le> green_it_score p \<and> green_it_score p \<le> 100)"

text \<open>
  The registrable domain of a host: domain and public suffix as tldextract gives them,
  joined by a dot, the subdomain left out.
\<close>

definition registrable_domain :: "libs \<Rightarrow> string \<Rightarrow> string" where
  "registrable_domain L host =
     ext_domain (tld_extract L host) @ ''.'' @ ext_suffix (tld_extract L host)"

text \<open>
  Deduplication by exact equality: the first occurrence of each element that is not in
  \<open>seen\<close> is kept, in order.
\<close>

fun dedup :: "'a list \<Rightarrow> 'a set \<Rightarrow> 'a list" where
  "dedup [] seen = []"
| "dedup (x # xs) seen = (if x \<in> seen then dedup xs seen else x # dedup xs (insert x seen))"

text \<open>
  The scored internal links of a page in discovery order, and the same pairs after the
  sort of \<open>find_candidate_links\<close> (\<open>sorted\<close> with the score as key and \<open>reverse=True\<close>).
\<close>

definition candidates :: "libs \<Rightarrow> string \<Rightarrow> string \<Rightarrow> (string \<times> int) list" where
  "candidates L base_url html =
     collect_links L base_url (registrable_domain L base_url) (soup_anchors L html)"

definition ranked_pairs :: "libs \<Rightarrow> string \<Rightarrow> string \<Rightarrow> (string \<times> int) list" where
  "ranked_pairs L base_url html = sort_key (\<lambda>x. - snd x) (candidates L base_url html)"


section \<open>Properties of the carbon estimator\<close>

lemmas spec_chain_defs = spec_avgKbPerPage_def spec_gbPerView_def spec_kwhPerView_def
  spec_gco2PerView_def spec_monthlyKgCo2_def spec_yearlyKgCo2_def

lemma estimate_report:
  "estimate_site_carbon (Report r) views multiplier energy intensity =
     (case float_of_int views of
        Inl err \<Rightarrow> Inl err
      | Inr v \<Rightarrow>
          Inr \<lparr>avg_kb_per_page = py_round (spec_avgKbPerPage (avg_html_kb r) multiplier) 1,
               gco2_per_page_view =
                 py_round (spec_gco2PerView (avg_html_kb r) multiplier energy intensity) 4,
               monthly_kgco2 =
                 py_round (spec_monthlyKgCo2 (avg_html_kb r) v multiplier energy intensity) 2,
               yearly_kgco2 =
                 py_round (spec_yearlyKgCo2 (avg_html_kb r) v multiplier energy intensity) 2,
               assumptions = \<lparr>monthly_page_views = views, weight_multiplier = multiplier,
                              energy_per_gb_kwh = energy,
                              carbon_intensity_g_per_kwh = intensity\<rparr>\<rparr>)"
  unfolding estimate_site_carbon_def get_avg_html_kb_def spec_chain_defs
  by (simp only: site_result.case option.case Let_def)


text \<open>
  Claim C8, as amended. The numbers held by the result are exactly the four display values
  (avgKbPerPage rounded to 1 decimal, gco2PerView to 4, the kg figures to 2) and the four
  echoed assumptions. The estimator fails only when the page views are too large for a float.
\<close>

theorem estimate_exposes_rounded_only:
  "(case estimate_site_carbon (Report r) views multiplier energy intensity of
      Inl err \<Rightarrow> err = OverflowError \<and> float_of_int views = Inl OverflowError
    | Inr est \<Rightarrow>
        float_of_int views = Inr (fl (of_int views))
        \<and> exposed_values est =
          [PyFloat (py_round (spec_avgKbPerPage (avg_html_kb r) multiplier) 1),
           PyFloat (py_round (spec_gco2PerView (avg_html_kb r) multiplier energy intensity) 4),
           PyFloat (py_round (spec_monthlyKgCo2 (avg_html_kb r) (fl (of_int views))
                                multiplier energy intensity) 2),
           PyFloat (py_round (spec_yearlyKgCo2 (avg_html_kb r) (fl (of_int views))
                                multiplier energy intensity) 2),
           PyInt views, PyFloat multiplier, PyFloat energy, PyFloat intensity])"
  by (cases "fl (of_int views)")
     (simp_all add: estimate_report exposed_values_def float_of_int_def)

text \<open>
  Claim C7, as amended. For avgHtmlKb = 100, 10000 monthly page views and the default
  constants the displayed outputs are avgKbPerPage = 300.0, gco2PerView = 0.0429,
  monthlyKgCo2 = 0.43 and yearlyKgCo2 = 5.15 (the doubles nearest to these decimals).
\<close>

theorem estimate_spec_example_displayed:
  "estimate_site_carbon (report_with_avg (Finite 100)) 10000 DEFAULT_WEIGHT_MULTIPLIER
       DEFAULT_ENERGY_PER_GB_KWH DEFAULT_CARBON_INTENSITY_G_PER_KWH =
     Inr \<lparr>avg_kb_per_page = Finite 300, gco2_per_page_view = fl (429 / 10000),
          monthly_kgco2 = fl (43 / 100), yearly_kgco2 = fl (515 / 100),
          assumptions = \<lparr>monthly_page_views = 10000, weight_multiplier = Finite 3,
                         energy_per_gb_kwh = Finite (1 / 2),
                         carbon_intensity_g_per_kwh = Finite 300\<rparr>\<rparr>"
  by code_simp

text \<open>
  Claim C7 as stated fails: at that input the displayed monthly figure is 0.43, not 0.42,
  and the displayed yearly figure is 5.15, 0.11 away from 5.04.
\<close>

theorem estimate_spec_example_counterexample:
  "(case estimate_site_carbon (report_with_avg (Finite 100)) 10000 DEFAULT_WEIGHT_MULTIPLIER
           DEFAULT_ENERGY_PER_GB_KWH DEFAULT_CARBON_INTENSITY_G_PER_KWH of
      Inl err \<Rightarrow> False
    | Inr est \<Rightarrow>
        monthly_kgco2 est = fl (43 / 100) \<and> monthly_kgco2 est \<noteq> fl (42 / 100)
        \<and> yearly_kgco2 est = fl (515 / 100) \<and> yearly_kgco2 est \<noteq> fl (504 / 100)
        \<and> (case monthly_kgco2 est of
              Finite x \<Rightarrow> \<bar>x - 42 / 100\<bar> > 99 / 10000 | _ \<Rightarrow> False)
        \<and> (case yearly_kgco2 est of
              Finite x \<Rightarrow> \<bar>x - 504 / 100\<bar> \<ge> 11 / 100 | _ \<Rightarrow> False))"
  by code_simp

text \<open>
  Claim C8 as stated fails: two inputs whose unrounded gco2PerView differ have the same
  result, so the result does not determine the unrounded values; and at avgHtmlKb = 100 with
  10000 views none of the unrounded gco2PerView, monthlyKgCo2 and yearlyKgCo2 is a number of
  the result.
\<close>

theorem estimate_unrounded_counterexample:
  "estimate_site_carbon (report_with_avg (fl (1 / 1000))) 100
       (Finite 3) (Finite (1 / 2)) (Finite 300)
     = estimate_site_carbon (report_with_avg (fl (2 / 1000))) 100
         (Finite 3) (Finite (1 / 2)) (Finite 300)
   \<and> spec_gco2PerView (fl (1 / 1000)) (Finite 3) (Finite (1 / 2)) (Finite 300)
       \<noteq> spec_gco2PerView (fl (2 / 1000)) (Finite 3) (Finite (1 / 2)) (Finite 300)
   \<and> (case estimate_site_carbon (report_with_avg (Finite 100)) 10000
              (Finite 3) (Finite (1 / 2)) (Finite 300) of
        Inl err \<Rightarrow> False
      | Inr est \<Rightarrow>
          PyFloat (spec_gco2PerView (Finite 100) (Finite 3) (Finite (1 / 2)) (Finite 300))
            \<notin> set (exposed_values est)
          \<and> PyFloat (spec_monthlyKgCo2 (Finite 100) (Finite 10000) (Finite 3) (Finite (1 / 2))
                       (Finite 300)) \<notin> set (exposed_values est)
          \<and> PyFloat (spec_yearlyKgCo2 (Finite 100) (Finite 10000) (Finite 3) (Finite (1 / 2))
                       (Finite 300)) \<notin> set (exposed_values est))"
  by code_simp


section \<open>Properties of the keyword scorer\<close>

lemma str_in_Nil [simp]: "str_in [] body"
  by (cases body) simp_all

lemma count_from_not_in: "\<not> str_in sub body \<Longrightarrow> count_from sub body = 0"
  by (induction body) auto

lemma str_count_not_in: "\<not> str_in sub body \<Longrightarrow> str_count body sub = 0"
  by (auto simp: str_count_def count_from_not_in)

lemma fold_guarded_sum:
  "fold (\<lambda>kw count.
           let kw_lower = lower kw in
           if str_in kw_lower t then count + int (str_count t kw_lower) else count) kws a
   = a + (\<Sum>kw\<leftarrow>kws. int (str_count t (lower kw)))"
  by (induction kws arbitrary: a) (auto simp: Let_def str_count_not_in)

lemma count_keywords_sum:
  "count_keywords body kws = (\<Sum>kw\<leftarrow>kws. int (str_count (lower body) (lower kw)))"
  by (simp add: count_keywords_def Let_def fold_guarded_sum [unfolded Let_def])

lemma score_from_hits_20:
  "score_from_hits h 20 =
     (if h \<le> 0 then 0 else if h \<ge> 20 then 100 else \<lfloor>rat_of_int h / 20 * 100\<rfloor>)"
  by (simp add: score_from_hits_def py_int_def)

lemma score_mid: "0 < h \<Longrightarrow> h < 20 \<Longrightarrow> score_from_hits h 20 = 5 * h"
proof -
  assume "0 < h" "h < 20"
  have "rat_of_int h / 20 * 100 = of_int (5 * h)" by simp
  then have "\<lfloor>rat_of_int h / 20 * 100\<rfloor> = 5 * h" by (simp only: floor_of_int)
  then show ?thesis using \<open>0 < h\<close> \<open>h < 20\<close> by (simp add: score_from_hits_20)
qed

text \<open>
  Claim C2. The raw hit count of a text for a keyword list is the sum, over the keywords, of
  the number of non-overlapping occurrences of the lowercased keyword in the lowercased text
  (the membership test before \<open>count\<close> changes nothing); \<open>analyze_text\<close> applies it to
  the three fixed lists and derives each score from its hit count with the threshold 20.
  The score is 0 for hits \<le> 0, 100 for hits \<ge> 20 and floor(hits / 20 * 100) between; 20 hits
  give 100, 10 hits give 50, and a text with no occurrence has 0 hits and score 0.
\<close>

theorem keyword_scorer:
  "count_keywords body kws
     = (\<Sum>kw\<leftarrow>kws. int (str_count (lower body) (lower kw)))
   \<and> rse_hits (analyze_text body) = count_keywords body RSE_KEYWORDS
   \<and> carbon_hits (analyze_text body) = count_keywords body CARBON_KEYWORDS
   \<and> green_it_hits (analyze_text body) = count_keywords body GREEN_IT_KEYWORDS
   \<and> rse_score (analyze_text body) = score_from_hits (rse_hits (analyze_text body)) 20
   \<and> carbon_score (analyze_text body) = score_from_hits (carbon_hits (analyze_text body)) 20
   \<and> green_it_score (analyze_text body)
       = score_from_hits (green_it_hits (analyze_text body)) 20
   \<and> score_from_hits h 20 =
       (if h \<le> 0 then 0 else if h \<ge> 20 then 100 else \<lfloor>rat_of_int h / 20 * 100\<rfloor>)
   \<and> score_from_hits 20 20 = 100
   \<and> score_from_hits 10 20 = 50
   \<and> (list_all (\<lambda>kw. str_count (lower body) (lower kw) = 0) kws
        \<longrightarrow> count_keywords body kws = 0
            \<and> score_from_hits (count_keywords body kws) 20 = 0)"
proof -
  have zero: "list_all (\<lambda>kw. str_count (lower body) (lower kw) = 0) kws
        \<longrightarrow> count_keywords body kws = 0
            \<and> score_from_hits (count_keywords body kws) 20 = 0"
  proof
    assume a: "list_all (\<lambda>kw. str_count (lower body) (lower kw) = 0) kws"
    then have "(\<Sum>kw\<leftarrow>kws. int (str_count (lower body) (lower kw))) = 0"
      by (induction kws) auto
    then have "count_keywords body kws = 0" by (simp add: count_keywords_sum)
    then show "count_keywords body kws = 0
            \<and> score_from_hits (count_keywords body kws) 20 = 0"
      by (simp add: score_from_hits_def)
  qed
  have s20: "score_from_hits 20 20 = 100" by (simp add: score_from_hits_def)
  have s10: "score_from_hits 10 20 = 50" using score_mid [of 10] by simp
  have hits: "rse_hits (analyze_text body) = count_keywords body RSE_KEYWORDS"
    "carbon_hits (analyze_text body) = count_keywords body CARBON_KEYWORDS"
    "green_it_hits (analyze_text body) = count_keywords body GREEN_IT_KEYWORDS"
    by (simp_all add: analyze_text_def Let_def)
  have scores: "rse_score (analyze_text body) = score_from_hits (rse_hits (analyze_text body)) 20"
    "carbon_score (analyze_text body) = score_from_hits (carbon_hits (analyze_text body)) 20"
    "green_it_score (analyze_text body)
       = score_from_hits (green_it_hits (analyze_text body)) 20"
    by (simp_all add: analyze_text_def Let_def)
  from count_keywords_sum [of body kws] hits scores score_from_hits_20 [of h] s20 s10 zero
  show ?thesis by blast
qed

text \<open>
  The claim on concrete texts: no keyword in "Nothing here", and "rse" exactly 20 and
  exactly 10 times.
\<close>

theorem keyword_scorer_witness:
  "list_all (\<lambda>kw. str_count (lower ''Nothing here'') (lower kw) = 0) RSE_KEYWORDS
   \<and> count_keywords ''Nothing here'' RSE_KEYWORDS = 0
   \<and> score_from_hits (count_keywords ''Nothing here'' RSE_KEYWORDS) 20 = 0
   \<and> rse_hits (analyze_text (rse_times 20)) = 20
   \<and> rse_score (analyze_text (rse_times 20)) = 100
   \<and> rse_hits (analyze_text (rse_times 10)) = 10
   \<and> rse_score (analyze_text (rse_times 10)) = 50"
proof -
  have h: "list_all (\<lambda>kw. str_count (lower ''Nothing here'') (lower kw) = 0) RSE_KEYWORDS"
    by code_simp
  have c20: "count_keywords (rse_times 20) RSE_KEYWORDS = 20" by code_simp
  have c10: "count_keywords (rse_times 10) RSE_KEYWORDS = 10" by code_simp
  from h keyword_scorer [of "''Nothing here''" RSE_KEYWORDS 0]
  have z: "count_keywords ''Nothing here'' RSE_KEYWORDS = 0
           \<and> score_from_hits (count_keywords ''Nothing here'' RSE_KEYWORDS) 20 = 0"
    by blast
  from keyword_scorer [of "rse_times 20" RSE_KEYWORDS 20]
  have a: "rse_hits (analyze_text (rse_times 20)) = count_keywords (rse_times 20) RSE_KEYWORDS"
    and b: "rse_score (analyze_text (rse_times 20))
              = score_from_hits (rse_hits (analyze_text (rse_times 20))) 20"
    and c: "score_from_hits 20 20 = 100" and d: "score_from_hits 10 20 = 50"
    by blast+
  from keyword_scorer [of "rse_times 10" RSE_KEYWORDS 10]
  have a': "rse_hits (analyze_text (rse_times 10)) = count_keywords (rse_times 10) RSE_KEYWORDS"
    and b': "rse_score (analyze_text (rse_times 10))
              = score_from_hits (rse_hits (analyze_text (rse_times 10))) 20"
    by blast+
  have r20: "rse_score (analyze_text (rse_times 20)) = 100"
    by (simp only: a b c c20)
  have r10: "rse_score (analyze_text (rse_times 10)) = 50"
    by (simp only: a' b' d c10)
  have h20: "rse_hits (analyze_text (rse_times 20)) = 20" by (simp only: a c20)
  have h10: "rse_hits (analyze_text (rse_times 10)) = 10" by (simp only: a' c10)
  from h z h20 h10 r20 r10 show ?thesis by blast
qed


section \<open>Properties of the crawl\<close>

lemma crawl_loop_grows:
  "length pages \<le> length (crawl_loop L mp links visited pages)"
proof (induction links arbitrary: visited pages)
  case Nil
  then show ?case by simp
next
  case (Cons link rest)
  have "length pages \<le> length (crawl_loop L mp rest (insert link visited)
          (pages @ [analyze_page L html link]))" for html
    using Cons.IH [where visited = "insert link visited"
        and pages = "pages @ [analyze_page L html link]"] by simp
  with Cons.IH show ?case by (auto split: option.splits)
qed

lemma crawl_loop_capped:
  "int (length (crawl_loop L mp links visited pages)) \<le> max mp (int (length pages))"
proof (induction links arbitrary: visited pages)
  case Nil
  then show ?case by simp
next
  case (Cons link rest)
  show ?case
  proof (cases "int (length pages) \<ge> mp")
    case True
    then show ?thesis by simp
  next
    case False
    have "int (length (crawl_loop L mp rest (insert link visited)
            (pages @ [analyze_page L html link]))) \<le> mp" for html
      using Cons.IH [where visited = "insert link visited"
          and pages = "pages @ [analyze_page L html link]"] False
      by simp
    moreover have "int (length (crawl_loop L mp rest v pages)) \<le> max mp (int (length pages))" for v
      using Cons.IH [where visited = v and pages = pages] .
    ultimately show ?thesis using False by (auto split: option.splits)
  qed
qed

lemma crawl_loop_all:
  assumes "list_all P pages" and "\<And>html u. P (analyze_page L html u)"
  shows "list_all P (crawl_loop L mp links visited pages)"
  using assms(1)
proof (induction links arbitrary: visited pages)
  case Nil
  then show ?case by simp
next
  case (Cons link rest)
  then show ?case using assms(2) by (auto split: option.splits)
qed

lemma py_max_Max: "xs \<noteq> [] \<Longrightarrow> py_max xs = Inr (Max (set xs))"
  by (cases xs) (simp_all add: Max.set_eq_fold [symmetric])

lemma analyze_website_failed:
  assumes "fetch_page L (normalize_base_url L seed) = None
           \<or> fetch_page L (normalize_base_url L seed) = Some []"
  shows "analyze_website L seed mp =
     Inr (Failed \<lparr>err_domain = netloc (urlparse L (normalize_base_url L seed)),
                  err_url = normalize_base_url L seed,
                  err_error = ''Impossible de r'' @ [CHR 0xE9] @ ''cup'' @ [CHR 0xE9]
                                @ ''rer la page d'accueil'',
                  err_pages_details = []\<rparr>)"
  using assms unfolding analyze_website_def by (simp add: Let_def)

lemma crawled_pages_nonempty: "crawled_pages L seed mp \<noteq> []"
proof -
  have "1 \<le> length (crawled_pages L seed mp)"
    unfolding crawled_pages_def Let_def
    using crawl_loop_grows [of "[analyze_page L h u]" for h u] by simp
  then show ?thesis by auto
qed

lemma analyze_website_report:
  assumes "fetch_page L (normalize_base_url L seed) = Some html" and "html \<noteq> []"
  shows "\<exists>r. analyze_website L seed mp = Inr (Report r)
     \<and> pages_details r = crawled_pages L seed mp
     \<and> pages_scanned r = int (length (crawled_pages L seed mp))
     \<and> total_rse_hits r = sum_list (map rse_hits (crawled_pages L seed mp))
     \<and> total_carbon_hits r = sum_list (map carbon_hits (crawled_pages L seed mp))
     \<and> total_green_it_hits r = sum_list (map green_it_hits (crawled_pages L seed mp))
     \<and> global_rse_score r = Max (set (map rse_score (crawled_pages L seed mp)))
     \<and> global_carbon_score r = Max (set (map carbon_score (crawled_pages L seed mp)))
     \<and> global_green_it_score r = Max (set (map green_it_score (crawled_pages L seed mp)))
     \<and> has_rse_content r = (total_rse_hits r > 0)
     \<and> has_carbon_mentions r = (total_carbon_hits r > 0)
     \<and> has_green_it r = (total_green_it_hits r > 0)
     \<and> has_bilan_carbone_explicit r =
         list_ex (\<lambda>p. str_in ''bilan carbone'' (lower (page_text p))) (crawled_pages L seed mp)"
proof -
  define pages where "pages = crawled_pages L seed mp"
  have ne: "pages \<noteq> []" unfolding pages_def by (rule crawled_pages_nonempty)
  have pg: "crawl_loop L mp (find_candidate_links L (normalize_base_url L seed) html 50)
              {normalize_base_url L seed} [analyze_page L html (normalize_base_url L seed)] = pages"
    unfolding pages_def crawled_pages_def Let_def using assms(1) by simp
  have m1: "py_max (map rse_score pages) = Inr (Max (set (map rse_score pages)))"
    and m2: "py_max (map carbon_score pages) = Inr (Max (set (map carbon_score pages)))"
    and m3: "py_max (map green_it_score pages) = Inr (Max (set (map green_it_score pages)))"
    using ne by (simp_all add: py_max_Max)
  show ?thesis
    unfolding analyze_website_def pages_def [symmetric]
    using assms by (simp add: Let_def pg m1 m2 m3)
qed

lemma analyze_website_failure:
  assumes "fetch_page L (normalize_base_url L seed) = None
           \<or> fetch_page L (normalize_base_url L seed) = Some []"
  shows "analyze_website L seed mp = Inr (Failed (failure_report L seed))"
  unfolding failure_report_def using assms by (rule analyze_website_failed)

lemma score_from_hits_range: "0 \<le> score_from_hits h 20 \<and> score_from_hits h 20 \<le> 100"
proof (cases "0 < h \<and> h < 20")
  case True
  then show ?thesis using score_mid [of h] by simp
next
  case False
  then show ?thesis by (auto simp: score_from_hits_def)
qed

lemma analyze_page_scores: "scores_in_range (analyze_page L html u)"
  by (simp add: scores_in_range_def analyze_page_def analyze_text_def Let_def
      score_from_hits_range)

lemma crawled_pages_scores: "list_all scores_in_range (crawled_pages L seed mp)"
  unfolding crawled_pages_def Let_def
  by (rule crawl_loop_all) (simp_all add: analyze_page_scores)

lemma crawled_pages_capped:
  "int (length (crawled_pages L seed mp)) \<le> max mp 1"
  unfolding crawled_pages_def Let_def
  using crawl_loop_capped [of L mp _ _ "[analyze_page L h u]" for h u] by simp

lemma report_is_success:
  assumes "analyze_website L seed mp = Inr (Report r)"
  shows "\<exists>html. fetch_page L (normalize_base_url L seed) = Some html \<and> html \<noteq> []"
proof (rule ccontr)
  assume "\<not> ?thesis"
  then have "fetch_page L (normalize_base_url L seed) = None
           \<or> fetch_page L (normalize_base_url L seed) = Some []"
    by (cases "fetch_page L (normalize_base_url L seed)") auto
  then have "analyze_website L seed mp = Inr (Failed (failure_report L seed))"
    by (rule analyze_website_failure)
  with assms show False by simp
qed

text \<open>
  The crawl of the example site, evaluated: three pages are analyzed (the home page, the
  carbon page ranked first, the about page); the link to the home page, the 404 and the
  empty body add no page. The home page has 236 bytes, 0.2 Ko after rounding; the two
  other pages round to 0.0 Ko.
\<close>

lemma test_crawl_facts:
  "(case analyze_website test_libs ''example.com'' MAX_PAGES of
      Inr (Report r) \<Rightarrow>
        pages_scanned r = 3 \<and> map url (pages_details r) =
          [''https://example.com'', ''https://example.com/bilan-carbone'',
           ''https://example.com/about'']
        \<and> map page_text (pages_details r) =
          [''Home Example Home Gone About Partner Empty Bilan Us'', ''Bilan Bilan Carbone 2024'',
           ''About About us'']
        \<and> map title (pages_details r) = [''Home'', ''Bilan'', ''About'']
        \<and> map carbon_hits (pages_details r) = [0, 1, 0]
        \<and> map carbon_score (pages_details r) = [0, 5, 0]
        \<and> total_carbon_hits r = 1 \<and> global_carbon_score r = 5
        \<and> has_carbon_mentions r \<and> has_bilan_carbone_explicit r
        \<and> \<not> list_ex (\<lambda>p. str_in ''bilan carbone'' (page_text p)) (pages_details r)
        \<and> domain r = ''example.com''
        \<and> map html_kb (pages_details r) = [fl (2 / 10), Finite 0, Finite 0]
        \<and> total_html_kb r = fl (2 / 10) \<and> avg_html_kb r = fl (1 / 10)
        \<and> summary r =
            ''Aucun contenu RSE clair trouv'' @ [CHR 0xE9] @ '' sur les pages analys''
              @ [CHR 0xE9] @ ''es. Mention explicite d'un bilan carbone. ''
              @ ''Pas de mention de num'' @ [CHR 0xE9] @ ''rique responsable / site ''
              @ [CHR 0xE9] @ ''co-con'' @ [CHR 0xE7] @ ''u d'' @ [CHR 0xE9] @ ''tect''
              @ [CHR 0xE9] @ ''e. Crawl de 3 pages pour 0.2 Ko de HTML (moyenne 0.1 Ko/page).''
    | _ \<Rightarrow> False)"
  by code_simp

subsection \<open>The failed crawl\<close>

text \<open>
  Claim C3. When the fetch of the home page is unavailable, the crawl returns the failed
  report: the host of the base URL as domain, the base URL, a non-empty reason and an empty
  page list. The carbon estimator applied to that report raises \<open>ValueError\<close> (the
  specification's EstimationInputMissing); it returns no estimate.
\<close>

theorem failed_crawl:
  "fetch_page L (normalize_base_url L seed) = None \<Longrightarrow>
     analyze_website L seed max_pages = Inr (Failed (failure_report L seed))
     \<and> err_pages_details (failure_report L seed) = []
     \<and> err_error (failure_report L seed) \<noteq> []
     \<and> err_domain (failure_report L seed) = netloc (urlparse L (normalize_base_url L seed))
     \<and> err_url (failure_report L seed) = normalize_base_url L seed
     \<and> estimate_site_carbon (Failed (failure_report L seed)) views multiplier energy intensity
         = Inl ValueError"
  by (simp add: analyze_website_failure)
     (simp add: failure_report_def estimate_site_carbon_def get_avg_html_kb_def)

text \<open>
  The claim on the host of the example that cannot be reached.
\<close>

theorem failed_crawl_witness:
  "fetch_page test_libs (normalize_base_url test_libs ''down.example'') = None
   \<and> analyze_website test_libs ''down.example'' MAX_PAGES
       = Inr (Failed \<lparr>err_domain = ''down.example'', err_url = ''https://down.example'',
            err_error = ''Impossible de r'' @ [CHR 0xE9] @ ''cup'' @ [CHR 0xE9]
                          @ ''rer la page d'accueil'',
            err_pages_details = []\<rparr>)
   \<and> estimate_site_carbon
         (Failed \<lparr>err_domain = ''down.example'', err_url = ''https://down.example'',
            err_error = ''Impossible de r'' @ [CHR 0xE9] @ ''cup'' @ [CHR 0xE9]
                          @ ''rer la page d'accueil'',
            err_pages_details = []\<rparr>)
         10000 DEFAULT_WEIGHT_MULTIPLIER DEFAULT_ENERGY_PER_GB_KWH
         DEFAULT_CARBON_INTENSITY_G_PER_KWH = Inl ValueError"
proof -
  have h: "fetch_page test_libs (normalize_base_url test_libs ''down.example'') = None"
    by code_simp
  have f: "failure_report test_libs ''down.example'' =
      \<lparr>err_domain = ''down.example'', err_url = ''https://down.example'',
            err_error = ''Impossible de r'' @ [CHR 0xE9] @ ''cup'' @ [CHR 0xE9]
                          @ ''rer la page d'accueil'',
            err_pages_details = []\<rparr>"
    by code_simp
  from failed_crawl [OF h, of MAX_PAGES 10000 DEFAULT_WEIGHT_MULTIPLIER
      DEFAULT_ENERGY_PER_GB_KWH DEFAULT_CARBON_INTENSITY_G_PER_KWH] h
  show ?thesis unfolding f by blast
qed

subsection \<open>A page with an empty body\<close>

lemma unavailable_simps:
  "urlparse (unavailable L u) = urlparse L"
  "urljoin (unavailable L u) = urljoin L"
  "tld_extract (unavailable L u) = tld_extract L"
  "soup_anchors (unavailable L u) = soup_anchors L"
  "normalize_base_url (unavailable L u) = normalize_base_url L"
  "is_internal_link (unavailable L u) = is_internal_link L"
  "analyze_page (unavailable L u) = analyze_page L"
  "float_sum (unavailable L u) = float_sum L"
  "fetch_page (unavailable L u) v = (if v = u then None else fetch_page L v)"
  by (auto simp: unavailable_def normalize_base_url_def is_internal_link_def
      analyze_page_def extract_text_def fetch_page_def fun_eq_iff)

lemma collect_links_unavailable:
  "collect_links (unavailable L u) b d anchors = collect_links L b d anchors"
  by (induction anchors) (auto simp: unavailable_simps Let_def)

lemma find_candidate_links_unavailable:
  "find_candidate_links (unavailable L u) = find_candidate_links L"
  by (simp add: fun_eq_iff find_candidate_links_def unavailable_simps
      collect_links_unavailable)

lemma crawl_loop_unavailable:
  assumes "fetch_page L u = Some []"
  shows "crawl_loop (unavailable L u) mp links visited pages = crawl_loop L mp links visited pages"
proof (induction links arbitrary: visited pages)
  case Nil
  then show ?case by simp
next
  case (Cons link rest)
  then show ?case using assms by (auto simp: unavailable_simps split: option.splits)
qed

lemma analyze_website_unavailable:
  assumes "fetch_page L u = Some []"
  shows "analyze_website (unavailable L u) seed mp = analyze_website L seed mp"
proof (cases "normalize_base_url L seed = u")
  case True
  then have "analyze_website L seed mp = Inr (Failed (failure_report L seed))"
    using assms by (simp add: analyze_website_failure)
  moreover have "analyze_website (unavailable L u) seed mp
      = Inr (Failed (failure_report (unavailable L u) seed))"
    using True by (simp add: analyze_website_failure unavailable_simps)
  moreover have "failure_report (unavailable L u) seed = failure_report L seed"
    by (simp add: failure_report_def unavailable_simps)
  ultimately show ?thesis by simp
next
  case False
  have fs: "float_sum (unavailable L u) = float_sum L"
    by (simp add: unavailable_def)
  from False show ?thesis
    unfolding analyze_website_def fs
    by (simp add: unavailable_simps find_candidate_links_unavailable
        crawl_loop_unavailable [OF assms] cong: if_cong)
qed

lemma fetch_page_empty_body:
  assumes "http_get L u = Some resp" "status_code resp = 200"
    "content_type resp = Some ct" "str_in ''text/html'' ct" "resp_text resp = []"
  shows "fetch_page L u = Some []"
  using assms by (simp add: fetch_page_def)

text \<open>
  Claim C10. A response with status 200, an HTML content type and an empty body makes
  \<open>fetch_page\<close> return the empty string, and the crawl treats the URL as one whose fetch
  raises: the result of the whole crawl is the one obtained with that fetch made to raise.
  As home page the URL gives the failed report; as candidate below the page cap it is marked
  visited and skipped, and no page record is made.
\<close>

theorem empty_body_unavailable:
  assumes "http_get L u = Some resp" and "status_code resp = 200"
    and "content_type resp = Some ct" and "str_in ''text/html'' ct"
    and "resp_text resp = []"
  shows "fetch_page L u = Some []
    \<and> analyze_website L seed max_pages = analyze_website (unavailable L u) seed max_pages
    \<and> (normalize_base_url L seed = u \<longrightarrow>
         analyze_website L seed max_pages = Inr (Failed (failure_report L seed)))
    \<and> (int (length pages_data) < max_pages \<and> u \<notin> visited \<longrightarrow>
         crawl_loop L max_pages (u # rest) visited pages_data
           = crawl_loop L max_pages rest (insert u visited) pages_data)"
proof -
  have e: "fetch_page L u = Some []" using assms by (rule fetch_page_empty_body)
  show ?thesis
    using e by (simp add: analyze_website_unavailable [OF e] analyze_website_failure)
qed

text \<open>
  The claim on the example host whose home page is empty, and on the empty candidate of the
  example site.
\<close>

theorem empty_body_unavailable_witness:
  "http_get test_libs ''https://empty.example'' = Some (html_response '''')
   \<and> status_code (html_response '''') = 200
   \<and> content_type (html_response '''') = Some ''text/html; charset=utf-8''
   \<and> str_in ''text/html'' ''text/html; charset=utf-8''
   \<and> resp_text (html_response '''') = []
   \<and> normalize_base_url test_libs ''empty.example'' = ''https://empty.example''
   \<and> fetch_page test_libs ''https://empty.example'' = Some []
   \<and> analyze_website test_libs ''empty.example'' MAX_PAGES
       = Inr (Failed \<lparr>err_domain = ''empty.example'', err_url = ''https://empty.example'',
            err_error = ''Impossible de r'' @ [CHR 0xE9] @ ''cup'' @ [CHR 0xE9]
                          @ ''rer la page d'accueil'',
            err_pages_details = []\<rparr>)
   \<and> http_get test_libs ''https://example.com/empty'' = Some (html_response '''')
   \<and> fetch_page test_libs ''https://example.com/empty'' = Some []
   \<and> crawl_loop test_libs MAX_PAGES
        [''https://example.com/empty'', ''https://example.com/about''] {''https://example.com''} []
      = crawl_loop test_libs MAX_PAGES [''https://example.com/about'']
          (insert ''https://example.com/empty'' {''https://example.com''}) []"
proof -
  have g: "http_get test_libs ''https://empty.example'' = Some (html_response '''')"
    by code_simp
  have g': "http_get test_libs ''https://example.com/empty'' = Some (html_response '''')"
    by code_simp
  have s: "status_code (html_response '''') = 200" by (simp add: html_response_def)
  have c: "content_type (html_response '''') = Some ''text/html; charset=utf-8''"
    by (simp add: html_response_def)
  have i: "str_in ''text/html'' ''text/html; charset=utf-8''" by code_simp
  have t: "resp_text (html_response '''') = []" by (simp add: html_response_def)
  have b: "normalize_base_url test_libs ''empty.example'' = ''https://empty.example''"
    by code_simp
  have f: "failure_report test_libs ''empty.example'' =
      \<lparr>err_domain = ''empty.example'', err_url = ''https://empty.example'',
            err_error = ''Impossible de r'' @ [CHR 0xE9] @ ''cup'' @ [CHR 0xE9]
                          @ ''rer la page d'accueil'',
            err_pages_details = []\<rparr>"
    by code_simp
  have v: "''https://example.com/empty'' \<notin> {''https://example.com''}" by simp
  have l: "int (length ([] :: page_info list)) < MAX_PAGES" by (simp add: MAX_PAGES_def)
  from empty_body_unavailable [OF g s c i t, of "''empty.example''" MAX_PAGES] b
  have home: "fetch_page test_libs ''https://empty.example'' = Some []"
    "analyze_website test_libs ''empty.example'' MAX_PAGES
       = Inr (Failed (failure_report test_libs ''empty.example''))"
    by blast+
  from empty_body_unavailable [OF g' s c i t, of _ MAX_PAGES "[]"
      "{''https://example.com''}" "[''https://example.com/about'']"] l v
  have cand: "fetch_page test_libs ''https://example.com/empty'' = Some []"
    "crawl_loop test_libs MAX_PAGES
        [''https://example.com/empty'', ''https://example.com/about''] {''https://example.com''} []
      = crawl_loop test_libs MAX_PAGES [''https://example.com/about'']
          (insert ''https://example.com/empty'' {''https://example.com''}) []"
    by blast+
  from g g' s c i t b home cand show ?thesis unfolding f by blast
qed

subsection \<open>The page cap\<close>

text \<open>
  Claim C6. A crawl whose home page is fetched scans at least 1 and at most 20 pages under
  the cap \<open>MAX_PAGES\<close>, whatever candidates the home page exposes. Below the cap, a
  candidate whose fetch fails is marked visited and skipped with the page list unchanged, and
  a candidate already visited is skipped; in both cases the loop goes on with the next
  candidate.
\<close>

theorem page_cap:
  "(fetch_page L (normalize_base_url L seed) = Some html \<and> html \<noteq> [] \<longrightarrow>
      (case analyze_website L seed MAX_PAGES of
         Inr (Report r) \<Rightarrow>
           1 \<le> pages_scanned r \<and> pages_scanned r \<le> 20
           \<and> pages_scanned r = int (length (pages_details r))
       | _ \<Rightarrow> False))
   \<and> (int (length pages_data) < max_pages \<and> link \<notin> visited \<and> fetch_page L link = None \<longrightarrow>
        crawl_loop L max_pages (link # rest) visited pages_data
          = crawl_loop L max_pages rest (insert link visited) pages_data)
   \<and> (int (length pages_data) < max_pages \<and> link \<in> visited \<longrightarrow>
        crawl_loop L max_pages (link # rest) visited pages_data
          = crawl_loop L max_pages rest visited pages_data)"
proof -
  have "case analyze_website L seed MAX_PAGES of
         Inr (Report r) \<Rightarrow>
           1 \<le> pages_scanned r \<and> pages_scanned r \<le> 20
           \<and> pages_scanned r = int (length (pages_details r))
       | _ \<Rightarrow> False"
    if h: "fetch_page L (normalize_base_url L seed) = Some html" "html \<noteq> []"
  proof -
    from analyze_website_report [OF h, of MAX_PAGES] obtain r where
      r: "analyze_website L seed MAX_PAGES = Inr (Report r)"
      "pages_details r = crawled_pages L seed MAX_PAGES"
      "pages_scanned r = int (length (crawled_pages L seed MAX_PAGES))"
      by blast
    have "crawled_pages L seed MAX_PAGES \<noteq> []" by (rule crawled_pages_nonempty)
    then have "1 \<le> int (length (crawled_pages L seed MAX_PAGES))"
      by (cases "crawled_pages L seed MAX_PAGES") simp_all
    moreover have "int (length (crawled_pages L seed MAX_PAGES)) \<le> 20"
      using crawled_pages_capped [of L seed MAX_PAGES] by (simp add: MAX_PAGES_def)
    ultimately show ?thesis using r by simp
  qed
  then show ?thesis by simp
qed

text \<open>
  The claim on the example site: 3 pages; the 404 candidate and the link back to the home
  page are skipped.
\<close>

theorem page_cap_witness:
  "fetch_page test_libs (normalize_base_url test_libs ''example.com'') = Some home_html
   \<and> home_html \<noteq> []
   \<and> (case analyze_website test_libs ''example.com'' MAX_PAGES of
         Inr (Report r) \<Rightarrow> pages_scanned r = 3 \<and> 1 \<le> pages_scanned r \<and> pages_scanned r \<le> 20
       | _ \<Rightarrow> False)
   \<and> fetch_page test_libs ''https://example.com/missing'' = None
   \<and> crawl_loop test_libs MAX_PAGES
        [''https://example.com/missing'', ''https://example.com/about''] {''https://example.com''} []
      = crawl_loop test_libs MAX_PAGES [''https://example.com/about'']
          (insert ''https://example.com/missing'' {''https://example.com''}) []
   \<and> crawl_loop test_libs MAX_PAGES
        [''https://example.com'', ''https://example.com/about''] {''https://example.com''} []
      = crawl_loop test_libs MAX_PAGES [''https://example.com/about''] {''https://example.com''} []"
proof -
  have h: "fetch_page test_libs (normalize_base_url test_libs ''example.com'') = Some home_html"
    by code_simp
  have n: "home_html \<noteq> []" by code_simp
  have m: "fetch_page test_libs ''https://example.com/missing'' = None" by code_simp
  have v: "''https://example.com/missing'' \<notin> {''https://example.com''}" by simp
  have l: "int (length ([] :: page_info list)) < MAX_PAGES" by (simp add: MAX_PAGES_def)
  from test_crawl_facts obtain r where
    e: "analyze_website test_libs ''example.com'' MAX_PAGES = Inr (Report r)"
    and f: "pages_scanned r = 3"
    by (auto split: sum.splits site_result.splits)
  have a: "1 \<le> pages_scanned r \<and> pages_scanned r \<le> 20"
    using page_cap [of test_libs "''example.com''" home_html] h n by (simp add: e)
  have b: "crawl_loop test_libs MAX_PAGES
        [''https://example.com/missing'', ''https://example.com/about''] {''https://example.com''} []
      = crawl_loop test_libs MAX_PAGES [''https://example.com/about'']
          (insert ''https://example.com/missing'' {''https://example.com''}) []"
    using page_cap [of test_libs _ _ "[]" MAX_PAGES "''https://example.com/missing''"
        "{''https://example.com''}" "[''https://example.com/about'']"] l v m
    by blast
  have c: "crawl_loop test_libs MAX_PAGES
        [''https://example.com'', ''https://example.com/about''] {''https://example.com''} []
      = crawl_loop test_libs MAX_PAGES [''https://example.com/about''] {''https://example.com''} []"
    using page_cap [of test_libs _ _ "[]" MAX_PAGES "''https://example.com''"
        "{''https://example.com''}" "[''https://example.com/about'']"] l
    by blast
  from h n m a b c f show ?thesis by (simp add: e)
qed

subsection \<open>The site report\<close>

text \<open>
  Claim C5, as amended. In the report of a successful crawl the hit totals are the sums of
  the per-page hit counts; the site scores are the maxima of the per-page scores, each of
  which lies between 0 and 100; each of the three flags says that its total is positive; and
  the explicit-accounting flag says that the lowercased text of some analyzed page contains
  "bilan carbone".
\<close>

theorem site_aggregation:
  assumes "analyze_website L seed max_pages = Inr (Report r)"
  shows "total_rse_hits r = (\<Sum>p\<leftarrow>pages_details r. rse_hits p)
     \<and> total_carbon_hits r = (\<Sum>p\<leftarrow>pages_details r. carbon_hits p)
     \<and> total_green_it_hits r = (\<Sum>p\<leftarrow>pages_details r. green_it_hits p)
     \<and> pages_details r \<noteq> []
     \<and> list_all scores_in_range (pages_details r)
     \<and> global_rse_score r = Max (set (map rse_score (pages_details r)))
     \<and> global_carbon_score r = Max (set (map carbon_score (pages_details r)))
     \<and> global_green_it_score r = Max (set (map green_it_score (pages_details r)))
     \<and> has_rse_content r = (total_rse_hits r > 0)
     \<and> has_carbon_mentions r = (total_carbon_hits r > 0)
     \<and> has_green_it r = (total_green_it_hits r > 0)
     \<and> has_bilan_carbone_explicit r =
         list_ex (\<lambda>p. str_in ''bilan carbone'' (lower (page_text p))) (pages_details r)"
proof -
  from report_is_success [OF assms] obtain html where
    h: "fetch_page L (normalize_base_url L seed) = Some html" "html \<noteq> []" by blast
  from analyze_website_report [OF h, of max_pages] assms
  have "pages_details r = crawled_pages L seed max_pages
     \<and> total_rse_hits r = sum_list (map rse_hits (crawled_pages L seed max_pages))
     \<and> total_carbon_hits r = sum_list (map carbon_hits (crawled_pages L seed max_pages))
     \<and> total_green_it_hits r = sum_list (map green_it_hits (crawled_pages L seed max_pages))
     \<and> global_rse_score r = Max (set (map rse_score (crawled_pages L seed max_pages)))
     \<and> global_carbon_score r = Max (set (map carbon_score (crawled_pages L seed max_pages)))
     \<and> global_green_it_score r = Max (set (map green_it_score (crawled_pages L seed max_pages)))
     \<and> has_rse_content r = (total_rse_hits r > 0)
     \<and> has_carbon_mentions r = (total_carbon_hits r > 0)
     \<and> has_green_it r = (total_green_it_hits r > 0)
     \<and> has_bilan_carbone_explicit r =
         list_ex (\<lambda>p. str_in ''bilan carbone'' (lower (page_text p)))
           (crawled_pages L seed max_pages)"
    by auto
  then show ?thesis
    using crawled_pages_nonempty [of L seed max_pages]
      crawled_pages_scores [of L seed max_pages] by simp
qed

text \<open>
  The amended claim on the example site.
\<close>

theorem site_aggregation_witness:
  "(case analyze_website test_libs ''example.com'' MAX_PAGES of
      Inr (Report r) \<Rightarrow>
        map carbon_hits (pages_details r) = [0, 1, 0]
        \<and> total_carbon_hits r = 1
        \<and> total_carbon_hits r = (\<Sum>p\<leftarrow>pages_details r. carbon_hits p)
        \<and> map carbon_score (pages_details r) = [0, 5, 0]
        \<and> global_carbon_score r = 5
        \<and> global_carbon_score r = Max (set (map carbon_score (pages_details r)))
        \<and> has_carbon_mentions r \<and> has_bilan_carbone_explicit r
        \<and> list_ex (\<lambda>p. str_in ''bilan carbone'' (lower (page_text p))) (pages_details r)
    | _ \<Rightarrow> False)"
proof -
  from test_crawl_facts obtain r where
    e: "analyze_website test_libs ''example.com'' MAX_PAGES = Inr (Report r)"
    and f: "map carbon_hits (pages_details r) = [0, 1, 0]"
      "map carbon_score (pages_details r) = [0, 5, 0]"
      "total_carbon_hits r = 1" "global_carbon_score r = 5"
      "has_carbon_mentions r" "has_bilan_carbone_explicit r"
    by (auto split: sum.splits site_result.splits)
  from site_aggregation [OF e] f show ?thesis by (simp add: e)
qed

text \<open>
  Claim C5 as stated fails for the explicit-accounting flag: on the example site the flag
  is set, and the text of no analyzed page contains "bilan carbone" as written (one page has
  "Bilan Carbone").
\<close>

theorem site_aggregation_counterexample:
  "(case analyze_website test_libs ''example.com'' MAX_PAGES of
      Inr (Report r) \<Rightarrow>
        map page_text (pages_details r) =
          [''Home Example Home Gone About Partner Empty Bilan Us'', ''Bilan Bilan Carbone 2024'',
           ''About About us'']
        \<and> has_bilan_carbone_explicit r
        \<and> \<not> list_ex (\<lambda>p. str_in ''bilan carbone'' (page_text p)) (pages_details r)
    | _ \<Rightarrow> False)"
  using test_crawl_facts by (auto split: sum.splits site_result.splits)


section \<open>Properties of the domain classifier\<close>

text \<open>
  Claim C9, as amended. The empty URL string is classified external. A non-empty URL with
  no host component (a relative link) is internal, and a non-empty URL with a host is
  internal exactly when the registrable domain of its host equals the base's registrable
  domain as a string. With urlparse and tldextract behaving on them as the real libraries
  do, for the base domain example.com the URL https://shop.example.com/a is internal,
  https://example.co.uk is external and /relative/path is internal.
\<close>

theorem domain_classifier:
  "is_internal_link L [] base_domain = False
   \<and> (link \<noteq> [] \<and> netloc (urlparse L link) = [] \<longrightarrow> is_internal_link L link base_domain)
   \<and> (link \<noteq> [] \<and> netloc (urlparse L link) \<noteq> [] \<longrightarrow>
        is_internal_link L link base_domain
          = (registrable_domain L (netloc (urlparse L link)) = base_domain))
   \<and> (netloc (urlparse L ''https://shop.example.com/a'') = ''shop.example.com''
        \<and> tld_extract L ''shop.example.com''
            = \<lparr>ext_subdomain = ''shop'', ext_domain = ''example'', ext_suffix = ''com''\<rparr>
        \<longrightarrow> is_internal_link L ''https://shop.example.com/a'' ''example.com'')
   \<and> (netloc (urlparse L ''https://example.co.uk'') = ''example.co.uk''
        \<and> tld_extract L ''example.co.uk''
            = \<lparr>ext_subdomain = '''', ext_domain = ''example'', ext_suffix = ''co.uk''\<rparr>
        \<longrightarrow> \<not> is_internal_link L ''https://example.co.uk'' ''example.com'')
   \<and> (netloc (urlparse L ''/relative/path'') = []
        \<longrightarrow> is_internal_link L ''/relative/path'' ''example.com'')"
  by (simp add: is_internal_link_def registrable_domain_def Let_def)

text \<open>
  The amended claim on the example libraries.
\<close>

theorem domain_classifier_witness:
  "netloc (urlparse test_libs ''https://shop.example.com/a'') = ''shop.example.com''
   \<and> tld_extract test_libs ''shop.example.com''
       = \<lparr>ext_subdomain = ''shop'', ext_domain = ''example'', ext_suffix = ''com''\<rparr>
   \<and> registrable_domain test_libs ''shop.example.com'' = ''example.com''
   \<and> is_internal_link test_libs ''https://shop.example.com/a'' ''example.com''
   \<and> netloc (urlparse test_libs ''https://example.co.uk'') = ''example.co.uk''
   \<and> tld_extract test_libs ''example.co.uk''
       = \<lparr>ext_subdomain = '''', ext_domain = ''example'', ext_suffix = ''co.uk''\<rparr>
   \<and> registrable_domain test_libs ''example.co.uk'' = ''example.co.uk''
   \<and> \<not> is_internal_link test_libs ''https://example.co.uk'' ''example.com''
   \<and> netloc (urlparse test_libs ''/relative/path'') = []
   \<and> is_internal_link test_libs ''/relative/path'' ''example.com''
   \<and> \<not> is_internal_link test_libs '''' ''example.com''"
proof -
  have a: "netloc (urlparse test_libs ''https://shop.example.com/a'') = ''shop.example.com''"
    and b: "tld_extract test_libs ''shop.example.com''
       = \<lparr>ext_subdomain = ''shop'', ext_domain = ''example'', ext_suffix = ''com''\<rparr>"
    and c: "netloc (urlparse test_libs ''https://example.co.uk'') = ''example.co.uk''"
    and d: "tld_extract test_libs ''example.co.uk''
       = \<lparr>ext_subdomain = '''', ext_domain = ''example'', ext_suffix = ''co.uk''\<rparr>"
    and e: "netloc (urlparse test_libs ''/relative/path'') = []"
    and r1: "registrable_domain test_libs ''shop.example.com'' = ''example.com''"
    and r2: "registrable_domain test_libs ''example.co.uk'' = ''example.co.uk''"
    by code_simp+
  from domain_classifier [of test_libs "''example.com''" "[]"] a b c d e r1 r2
  show ?thesis by blast
qed

text \<open>
  Claim C9 as stated fails at the empty string: it has no host component, and
  \<open>is_internal_link\<close> returns \<open>False\<close> for it before it looks at the host.
\<close>

theorem domain_classifier_counterexample:
  "netloc (urlparse test_libs '''') = '''' \<and> \<not> is_internal_link test_libs '''' ''example.com''"
  by code_simp


section \<open>Properties of the link discoverer\<close>

text \<open>
  For a maximum of at least 1 the result of \<open>find_candidate_links\<close> is the list of the
  internal links of the page, sorted by score in descending order by a stable sort, freed
  from duplicates and cut at the maximum. Each stem adds 5 to a score at most once.
\<close>

lemma set_dedup: "set (dedup xs seen) = set xs - seen"
  by (induction xs arbitrary: seen) auto

lemma distinct_dedup: "distinct (dedup xs seen)"
  by (induction xs arbitrary: seen) (auto simp: set_dedup)

lemma dedup_append: "dedup (xs @ ys) seen = dedup xs seen @ dedup ys (seen \<union> set xs)"
  by (induction xs arbitrary: seen) (auto simp: insert_absorb)

lemma rank_links_dedup:
  assumes "int (length ranked) < m"
  shows "rank_links m xs (set ranked) ranked
           = ranked @ take (nat m - length ranked) (dedup (map fst xs) (set ranked))"
  using assms
proof (induction xs arbitrary: ranked)
  case Nil
  then show ?case by simp
next
  case (Cons x xs)
  obtain u sc where x: "x = (u, sc)" by (cases x)
  show ?case
  proof (cases "u \<in> set ranked")
    case True
    then show ?thesis using Cons x by simp
  next
    case False
    show ?thesis
    proof (cases "int (length (ranked @ [u])) \<ge> m")
      case True
      with Cons.prems have "nat m - length ranked = 1" by simp
      then show ?thesis using False True x by simp
    next
      case full: False
      then have lt: "int (length (ranked @ [u])) < m" by simp
      have "nat m - length ranked = Suc (nat m - length (ranked @ [u]))"
        using lt by simp
      then show ?thesis
        using Cons.IH [OF lt] False full x by simp
    qed
  qed
qed

lemma find_candidate_links_eq:
  assumes "1 \<le> max_links"
  shows "find_candidate_links L base_url html max_links
           = take (nat max_links) (dedup (map fst (ranked_pairs L base_url html)) {})"
  using rank_links_dedup [of "[]" max_links] assms
  by (simp add: find_candidate_links_def ranked_pairs_def candidates_def
      registrable_domain_def Let_def)

lemma link_score_stems:
  "link_score u t = 5 * int (length (filter (\<lambda>kw. str_in kw u \<or> str_in kw t) LINK_STEMS))"
proof -
  have "fold (\<lambda>kw score. if str_in kw u \<or> str_in kw t then score + 5 else score) kws a
          = a + 5 * int (length (filter (\<lambda>kw. str_in kw u \<or> str_in kw t) kws))" for kws a
    by (induction kws arbitrary: a) auto
  then show ?thesis by (simp add: link_score_def)
qed

lemma collect_links_map_filter:
  "collect_links L b d anchors
     = map (\<lambda>a. (urljoin L b (fst a), link_score (lower (urljoin L b (fst a))) (lower (snd a))))
         (filter (\<lambda>a. is_internal_link L (urljoin L b (fst a)) d) anchors)"
  by (induction anchors) (auto simp: Let_def)

lemma ranked_pairs_sorted:
  "sorted_wrt (\<lambda>p q. snd p \<ge> snd q) (ranked_pairs L base_url html)"
proof -
  have "sorted (map (\<lambda>x. - snd x) (ranked_pairs L base_url html))"
    unfolding ranked_pairs_def by (rule sorted_sort_key)
  then show ?thesis by (simp add: sorted_map)
qed

lemma ranked_pairs_stable:
  "filter (\<lambda>p. snd p = k) (ranked_pairs L base_url html)
     = filter (\<lambda>p. snd p = k) (candidates L base_url html)"
  using sort_key_stable [of "\<lambda>x. - snd x" "- k" "candidates L base_url html"]
  by (simp add: ranked_pairs_def)

lemma ranked_pairs_set: "set (ranked_pairs L base_url html) = set (candidates L base_url html)"
  by (simp add: ranked_pairs_def)

lemma dropWhile_sorted_low:
  assumes "sorted_wrt (\<lambda>p q. snd p \<ge> snd q) (S :: ('a \<times> int) list)"
  shows "list_all (\<lambda>p. snd p \<le> 0) (dropWhile (\<lambda>p. snd p > 0) S)"
  using assms
proof (induction S)
  case Nil
  then show ?case by simp
next
  case (Cons x S)
  show ?case
  proof (cases "snd x > 0")
    case True
    then show ?thesis using Cons by simp
  next
    case False
    then have "list_all (\<lambda>p. snd p \<le> 0) (x # S)"
      using Cons.prems by (auto simp: list_all_iff)
    then show ?thesis using False by simp
  qed
qed

lemma candidates_member:
  assumes "(u, s) \<in> set (candidates L base_url html)"
  shows "is_internal_link L u (registrable_domain L base_url)
     \<and> (\<exists>a \<in> set (soup_anchors L html).
           u = urljoin L base_url (fst a) \<and> s = link_score (lower u) (lower (snd a)))"
  using assms unfolding candidates_def collect_links_map_filter by auto

lemma find_candidate_links_positive_max:
  assumes "1 \<le> max_links"
  shows "find_candidate_links L base_url html max_links
           = take (nat max_links) (dedup (map fst (ranked_pairs L base_url html)) {})
     \<and> distinct (find_candidate_links L base_url html max_links)
     \<and> int (length (find_candidate_links L base_url html max_links)) \<le> max_links
     \<and> list_all (\<lambda>u. is_internal_link L u (registrable_domain L base_url)
                    \<and> list_ex (\<lambda>a. u = urljoin L base_url (fst a)) (soup_anchors L html))
         (find_candidate_links L base_url html max_links)"
proof -
  let ?D = "dedup (map fst (ranked_pairs L base_url html)) {}"
  have eq: "find_candidate_links L base_url html max_links = take (nat max_links) ?D"
    using assms by (rule find_candidate_links_eq)
  have d: "distinct (take (nat max_links) ?D)" by (simp add: distinct_dedup)
  have l: "int (length (take (nat max_links) ?D)) \<le> max_links" using assms by simp
  have "is_internal_link L u (registrable_domain L base_url)
         \<and> list_ex (\<lambda>a. u = urljoin L base_url (fst a)) (soup_anchors L html)"
    if "u \<in> set (take (nat max_links) ?D)" for u
  proof -
    from that have "u \<in> set ?D" by (rule in_set_takeD)
    then obtain s where "(u, s) \<in> set (candidates L base_url html)"
      by (auto simp: set_dedup ranked_pairs_set)
    from candidates_member [OF this] show ?thesis by (auto simp: list_ex_iff)
  qed
  then have i: "list_all (\<lambda>u. is_internal_link L u (registrable_domain L base_url)
                    \<and> list_ex (\<lambda>a. u = urljoin L base_url (fst a)) (soup_anchors L html))
         (take (nat max_links) ?D)"
    by (simp add: list_all_iff)
  from eq d l i show ?thesis by simp
qed

lemma carbone_score:
  assumes "str_in ''carbone'' url_lower"
  shows "5 \<le> link_score url_lower t"
proof -
  have "''carbone'' \<in> set LINK_STEMS" by (simp add: LINK_STEMS_def)
  with assms have "filter (\<lambda>kw. str_in kw url_lower \<or> str_in kw t) LINK_STEMS \<noteq> []"
    by (auto simp: filter_empty_conv)
  then have "1 \<le> length (filter (\<lambda>kw. str_in kw url_lower \<or> str_in kw t) LINK_STEMS)"
    by (cases "filter (\<lambda>kw. str_in kw url_lower \<or> str_in kw t) LINK_STEMS") simp_all
  then show ?thesis by (simp add: link_score_stems)
qed

lemma carbone_ranks_first:
  assumes m: "1 \<le> max_links"
    and u: "(u, s) \<in> set (candidates L base_url html)" "str_in ''carbone'' (lower u)"
    and v: "v \<in> set (find_candidate_links L base_url html max_links)"
      "list_all (\<lambda>p. fst p = v \<longrightarrow> snd p = 0) (candidates L base_url html)"
  shows "5 \<le> s
    \<and> (\<exists>xs ys zs. find_candidate_links L base_url html max_links = xs @ u # ys @ v # zs)"
proof -
  define S where "S = ranked_pairs L base_url html"
  define A where "A = takeWhile (\<lambda>p. snd p > 0) S"
  define B where "B = dropWhile (\<lambda>p. snd p > 0) S"
  define D1 where "D1 = dedup (map fst A) {}"
  define D2 where "D2 = dedup (map fst B) (set (map fst A))"
  from candidates_member [OF u(1)] u(2) have s5: "5 \<le> s"
    by (auto simp: carbone_score)
  have S: "S = A @ B" by (simp add: A_def B_def)
  have low: "list_all (\<lambda>p. snd p \<le> 0) B"
    unfolding B_def S_def by (rule dropWhile_sorted_low [OF ranked_pairs_sorted])
  have "(u, s) \<in> set S" using u(1) by (simp add: S_def ranked_pairs_set)
  then have "(u, s) \<in> set A \<or> (u, s) \<in> set B" by (simp add: S)
  moreover have "(u, s) \<notin> set B" using low s5 by (auto simp: list_all_iff)
  ultimately have uA: "u \<in> set (map fst A)" by force
  have vA: "v \<notin> set (map fst A)"
  proof
    assume "v \<in> set (map fst A)"
    then obtain t where t: "(v, t) \<in> set A" by auto
    then have "0 < t" unfolding A_def by (auto dest: set_takeWhileD)
    moreover from t have "(v, t) \<in> set (candidates L base_url html)"
      unfolding A_def S_def by (auto dest: set_takeWhileD simp: ranked_pairs_set)
    ultimately show False using v(2) by (auto simp: list_all_iff)
  qed
  have D: "dedup (map fst S) {} = D1 @ D2"
    by (simp add: S dedup_append D1_def D2_def)
  have R: "find_candidate_links L base_url html max_links = take (nat max_links) (D1 @ D2)"
    using find_candidate_links_eq [OF m] D by (simp add: S_def)
  have uD1: "u \<in> set D1" using uA by (simp add: D1_def set_dedup)
  have vD1: "v \<notin> set D1" using vA by (simp add: D1_def set_dedup)
  have long: "length D1 < nat max_links"
  proof (rule ccontr)
    assume "\<not> length D1 < nat max_links"
    then have "nat max_links \<le> length D1" by simp
    then have "take (nat max_links) (D1 @ D2) = take (nat max_links) D1" by simp
    with v(1) have "v \<in> set (take (nat max_links) D1)" by (simp only: R)
    then have "v \<in> set D1" by (rule in_set_takeD)
    with vD1 show False by simp
  qed
  then have R': "find_candidate_links L base_url html max_links
      = D1 @ take (nat max_links - length D1) D2"
    using R by simp
  with v(1) vD1 have "v \<in> set (take (nat max_links - length D1) D2)" by auto
  then obtain ys2 zs where z: "take (nat max_links - length D1) D2 = ys2 @ v # zs"
    by (auto simp: in_set_conv_decomp)
  from uD1 obtain xs ys1 where x: "D1 = xs @ u # ys1"
    by (auto simp: in_set_conv_decomp)
  have "find_candidate_links L base_url html max_links = xs @ u # (ys1 @ ys2) @ v # zs"
    using R' x z by simp
  with s5 show ?thesis by blast
qed

text \<open>
  Claim C4, as amended: for a maximum link count of at least 1. The result of
  \<open>find_candidate_links\<close> is the list of the scored internal links, sorted by score in
  descending order by a stable sort (links of equal score keep their discovery order), freed
  from duplicates and cut at the maximum: its URLs are distinct, at most \<open>max_links\<close>,
  internal and absolute URLs of anchors of the page. The scored links are the anchors whose
  absolute URL is internal, the others are discarded; a score is 5 times the number of
  stems found in the lowercased absolute URL or in the lowercased anchor text. Hence a link
  whose URL contains "carbone" has a score of at least 5 and stands in the result before
  every returned URL that matches no stem.
\<close>

theorem link_discoverer:
  assumes "1 \<le> max_links"
  shows "find_candidate_links L base_url html max_links
           = take (nat max_links) (dedup (map fst (ranked_pairs L base_url html)) {})
     \<and> distinct (find_candidate_links L base_url html max_links)
     \<and> int (length (find_candidate_links L base_url html max_links)) \<le> max_links
     \<and> list_all (\<lambda>u. is_internal_link L u (registrable_domain L base_url)
                    \<and> list_ex (\<lambda>a. u = urljoin L base_url (fst a)) (soup_anchors L html))
         (find_candidate_links L base_url html max_links)
     \<and> sorted_wrt (\<lambda>p q. snd p \<ge> snd q) (ranked_pairs L base_url html)
     \<and> (\<forall>k. filter (\<lambda>p. snd p = k) (ranked_pairs L base_url html)
               = filter (\<lambda>p. snd p = k) (candidates L base_url html))
     \<and> candidates L base_url html
         = map (\<lambda>a. (urljoin L base_url (fst a),
                      link_score (lower (urljoin L base_url (fst a))) (lower (snd a))))
             (filter (\<lambda>a. is_internal_link L (urljoin L base_url (fst a))
                             (registrable_domain L base_url))
                (soup_anchors L html))
     \<and> (\<forall>url_lower atext. link_score url_lower atext
           = 5 * int (length (filter (\<lambda>kw. str_in kw url_lower \<or> str_in kw atext) LINK_STEMS)))
     \<and> ((u, s) \<in> set (candidates L base_url html) \<and> str_in ''carbone'' (lower u)
          \<and> v \<in> set (find_candidate_links L base_url html max_links)
          \<and> list_all (\<lambda>p. fst p = v \<longrightarrow> snd p = 0) (candidates L base_url html)
        \<longrightarrow> 5 \<le> s
            \<and> (\<exists>xs ys zs. find_candidate_links L base_url html max_links
                              = xs @ u # ys @ v # zs))"
proof -
  note p = find_candidate_links_positive_max [OF assms, of L base_url html]
  have c: "(u, s) \<in> set (candidates L base_url html) \<and> str_in ''carbone'' (lower u)
          \<and> v \<in> set (find_candidate_links L base_url html max_links)
          \<and> list_all (\<lambda>p. fst p = v \<longrightarrow> snd p = 0) (candidates L base_url html)
        \<longrightarrow> 5 \<le> s
            \<and> (\<exists>xs ys zs. find_candidate_links L base_url html max_links
                              = xs @ u # ys @ v # zs)"
    using carbone_ranks_first [OF assms, of u s L base_url html v] by blast
  have k: "\<forall>k. filter (\<lambda>p. snd p = k) (ranked_pairs L base_url html)
               = filter (\<lambda>p. snd p = k) (candidates L base_url html)"
    by (simp add: ranked_pairs_stable)
  have m: "candidates L base_url html
         = map (\<lambda>a. (urljoin L base_url (fst a),
                      link_score (lower (urljoin L base_url (fst a))) (lower (snd a))))
             (filter (\<lambda>a. is_internal_link L (urljoin L base_url (fst a))
                             (registrable_domain L base_url))
                (soup_anchors L html))"
    unfolding candidates_def by (rule collect_links_map_filter)
  have l: "\<forall>url_lower atext. link_score url_lower atext
           = 5 * int (length (filter (\<lambda>kw. str_in kw url_lower \<or> str_in kw atext) LINK_STEMS))"
    by (simp add: link_score_stems)
  from p ranked_pairs_sorted [of L base_url html] k m l c show ?thesis by blast
qed

text \<open>
  The amended claim on the home page of the example site with the maximum 50 of the crawl:
  of the seven anchors the external one is discarded and the second link to the about page
  is a duplicate; the carbon page, of score 5, comes first, the others keep their order.
\<close>

theorem link_discoverer_witness:
  "(1::int) \<le> 50
   \<and> candidates test_libs ''https://example.com'' home_html
       = [(''https://example.com'', 0), (''https://example.com/missing'', 0),
          (''https://example.com/about'', 0), (''https://example.com/empty'', 0),
          (''https://example.com/bilan-carbone'', 5), (''https://example.com/about'', 0)]
   \<and> ranked_pairs test_libs ''https://example.com'' home_html
       = [(''https://example.com/bilan-carbone'', 5), (''https://example.com'', 0),
          (''https://example.com/missing'', 0), (''https://example.com/about'', 0),
          (''https://example.com/empty'', 0), (''https://example.com/about'', 0)]
   \<and> find_candidate_links test_libs ''https://example.com'' home_html 50
       = [''https://example.com/bilan-carbone'', ''https://example.com'',
          ''https://example.com/missing'', ''https://example.com/about'',
          ''https://example.com/empty'']
   \<and> str_in ''carbone'' (lower ''https://example.com/bilan-carbone'')
   \<and> (\<exists>xs ys zs. find_candidate_links test_libs ''https://example.com'' home_html 50
                     = xs @ ''https://example.com/bilan-carbone'' # ys
                         @ ''https://example.com/about'' # zs)"
proof -
  have one: "(1::int) \<le> 50" by simp
  have c: "candidates test_libs ''https://example.com'' home_html
       = [(''https://example.com'', 0), (''https://example.com/missing'', 0),
          (''https://example.com/about'', 0), (''https://example.com/empty'', 0),
          (''https://example.com/bilan-carbone'', 5), (''https://example.com/about'', 0)]"
    by code_simp
  have r: "ranked_pairs test_libs ''https://example.com'' home_html
       = [(''https://example.com/bilan-carbone'', 5), (''https://example.com'', 0),
          (''https://example.com/missing'', 0), (''https://example.com/about'', 0),
          (''https://example.com/empty'', 0), (''https://example.com/about'', 0)]"
    unfolding ranked_pairs_def c by code_simp
  have f: "find_candidate_links test_libs ''https://example.com'' home_html 50
       = [''https://example.com/bilan-carbone'', ''https://example.com'',
          ''https://example.com/missing'', ''https://example.com/about'',
          ''https://example.com/empty'']"
    using link_discoverer [OF one, of test_libs "''https://example.com''" home_html]
    unfolding r by simp
  have s: "str_in ''carbone'' (lower ''https://example.com/bilan-carbone'')" by code_simp
  have u: "(''https://example.com/bilan-carbone'', 5)
             \<in> set (candidates test_libs ''https://example.com'' home_html)"
    unfolding c by simp
  have v: "''https://example.com/about''
             \<in> set (find_candidate_links test_libs ''https://example.com'' home_html 50)"
    unfolding f by simp
  have z: "list_all (\<lambda>p. fst p = ''https://example.com/about'' \<longrightarrow> snd p = 0)
             (candidates test_libs ''https://example.com'' home_html)"
    unfolding c by simp
  from link_discoverer [OF one, of test_libs "''https://example.com''" home_html
      "''https://example.com/bilan-carbone''" 5 "''https://example.com/about''"] s u v z
  have e: "\<exists>xs ys zs. find_candidate_links test_libs ''https://example.com'' home_html 50
                     = xs @ ''https://example.com/bilan-carbone'' # ys
                         @ ''https://example.com/about'' # zs"
    by blast
  from one c r f s e show ?thesis by blast
qed

text \<open>
  Claim C4 as stated fails for a maximum of 0 (or less): the loop tests the length only
  after it has appended a URL, so the result for a page with an internal link has one URL,
  more than the maximum. On the home page of the example site:
\<close>

theorem find_candidate_links_zero_max:
  "find_candidate_links test_libs ''https://example.com'' home_html 0
     = [''https://example.com/bilan-carbone'']
   \<and> int (length (find_candidate_links test_libs ''https://example.com'' home_html 0)) > 0"
  by code_simp

end
